theory Spec2Isabelle
  imports Complex_Main "HOL-Library.Sublist"
begin

section \<open>Text\<close>

text \<open>
  A Python \<open>str\<close> is modelled as a HOL \<open>string\<close>. One \<open>char\<close> is one ASCII
  character; on ASCII text \<open>lower\<close>, \<open>is_digit\<close> and \<open>is_space\<close> below are exactly
  \<open>str.lower\<close>, the class \<open>\d\<close> and the class \<open>\s\<close> (and \<open>str.strip\<close>'s notion of
  white space) of Python 3, and a slice counts characters. Beyond ASCII the
  model says less than Python does: \<open>str.lower\<close> also maps letters outside ASCII
  (the Kelvin sign U+212A to \<open>k\<close>), \<open>\d\<close> also matches the decimal digits of other
  scripts, and a character outside ASCII is several bytes here. The few
  characters beyond ASCII that occur in the literals of the source (the
  symbols in front of the warnings and around the heading of the emergency
  response) are written as their UTF-8 bytes.
\<close>

definition nl :: string where
  "nl = [CHR 0x0A]"

definition lower_char :: "char \<Rightarrow> char" where
  "lower_char c =
     (let n = (of_char c :: nat) in if 65 \<le> n \<and> n \<le> 90 then char_of (n + 32) else c)"

definition lower :: "string \<Rightarrow> string" where
  "lower s = map lower_char s"

definition is_digit :: "char \<Rightarrow> bool" where
  "is_digit c = (let n = (of_char c :: nat) in 48 \<le> n \<and> n \<le> 57)"

definition is_space :: "char \<Rightarrow> bool" where
  "is_space c = (let n = (of_char c :: nat) in (9 \<le> n \<and> n \<le> 13) \<or> (28 \<le> n \<and> n \<le> 32))"

text \<open>\<open>sep.join(xs)\<close>\<close>

fun join :: "string \<Rightarrow> string list \<Rightarrow> string" where
  "join sep [] = []"
| "join sep [x] = x"
| "join sep (x # y # ys) = x @ sep @ join sep (y # ys)"

text \<open>\<open>s.strip()\<close>: white space removed at both ends.\<close>

definition strip :: "string \<Rightarrow> string" where
  "strip s = rev (dropWhile is_space (rev (dropWhile is_space s)))"

section \<open>Regular expressions\<close>

text \<open>
  The patterns of the source are written as terms of \<open>regex\<close>. \<open>Dot\<close> is \<open>.\<close>
  without the flag DOTALL (any character but the newline), \<open>Digit\<close> is \<open>\d\<close>,
  \<open>CharRange a b\<close> is \<open>[a-b]\<close>. A capture group is the expression itself, and a
  lazy \<open>*?\<close> is a \<open>Star\<close>: both change which match is reported, never whether
  there is one, and the emergency detector only asks whether there is one.
\<close>

datatype regex =
    Lit string
  | Dot
  | Digit
  | CharRange char char
  | Seq regex regex
  | Alt regex regex
  | Star regex

text \<open>\<open>r{n,}\<close> and \<open>r?\<close>\<close>

primrec at_least :: "nat \<Rightarrow> regex \<Rightarrow> regex" where
  "at_least 0 r = Star r"
| "at_least (Suc n) r = Seq r (at_least n r)"

definition opt :: "regex \<Rightarrow> regex" where
  "opt r = Alt r (Lit [])"

text \<open>
  \<open>after r s\<close> lists what is left of \<open>s\<close> behind each prefix of \<open>s\<close> that \<open>r\<close> matches,
  as a backtracking matcher finds them. A \<open>Star\<close> tries its body again only
  where the body has consumed something, so \<open>length s\<close> rounds are enough.
\<close>

primrec star_iter :: "(string \<Rightarrow> string list) \<Rightarrow> nat \<Rightarrow> string \<Rightarrow> string list" where
  "star_iter f 0 s = [s]"
| "star_iter f (Suc n) s =
     s # concat (map (star_iter f n) (filter (\<lambda>t. length t < length s) (f s)))"

definition one_char :: "(char \<Rightarrow> bool) \<Rightarrow> string \<Rightarrow> string list" where
  "one_char P s = (case s of [] \<Rightarrow> [] | c # cs \<Rightarrow> if P c then [cs] else [])"

primrec after :: "regex \<Rightarrow> string \<Rightarrow> string list" where
  "after (Lit w) = (\<lambda>s. if prefix w s then [drop (length w) s] else [])"
| "after Dot = one_char (\<lambda>c. c \<noteq> CHR 0x0A)"
| "after Digit = one_char is_digit"
| "after (CharRange a b) = one_char (\<lambda>c. (of_char a :: nat) \<le> of_char c \<and> (of_char c :: nat) \<le> of_char b)"
| "after (Seq r1 r2) = (\<lambda>s. concat (map (after r2) (after r1 s)))"
| "after (Alt r1 r2) = (\<lambda>s. after r1 s @ after r2 s)"
| "after (Star r) = (\<lambda>s. star_iter (after r) (length s) s)"

text \<open>\<open>re.search(r, s)\<close> as a truth value: is there a match starting anywhere in \<open>s\<close>?\<close>

fun search :: "regex \<Rightarrow> string \<Rightarrow> bool" where
  "search r [] = (after r [] \<noteq> [])"
| "search r (c # cs) = (after r (c # cs) \<noteq> [] \<or> search r cs)"

text \<open>The words a pattern denotes, to state what \<open>after\<close> and \<open>search\<close> compute.\<close>

inductive_set star :: "string set \<Rightarrow> string set" for A :: "string set" where
  star_Nil: "[] \<in> star A"
| star_step: "u \<in> A \<Longrightarrow> v \<in> star A \<Longrightarrow> u @ v \<in> star A"

primrec lang :: "regex \<Rightarrow> string set" where
  "lang (Lit w) = {w}"
| "lang Dot = {[c] | c. c \<noteq> CHR 0x0A}"
| "lang Digit = {[c] | c. is_digit c}"
| "lang (CharRange a b) = {[c] | c. (of_char a :: nat) \<le> of_char c \<and> (of_char c :: nat) \<le> of_char b}"
| "lang (Seq r1 r2) = {u @ v | u v. u \<in> lang r1 \<and> v \<in> lang r2}"
| "lang (Alt r1 r2) = lang r1 \<union> lang r2"
| "lang (Star r) = star (lang r)"

section \<open>The emergency detector\<close>

record emergency_result =
  is_emergency :: bool
  emergency_types :: "string list"
  emergency_response :: "string option"

definition digits3 :: regex where
  "digits3 = at_least 3 Digit"

definition alts :: "string list \<Rightarrow> regex" where
  "alts ws = foldr (\<lambda>w r. Alt (Lit w) r) (butlast ws) (Lit (last ws))"

definition any :: regex where
  "any = Star Dot"

text \<open>
  The dictionary \<open>emergency_patterns\<close>, in the order the source writes it. Its
  patterns, category by category:
  \<^verbatim>\<open>blood sugar (over|above|more than) (\d{3,})\<close>,
  \<^verbatim>\<open>glucose.*?(\d{3,})\<close>,
  \<^verbatim>\<open>(\d{3,}).*?(blood sugar|glucose)\<close>;
  \<^verbatim>\<open>blood sugar (under|below|less than) (40|30|20)\<close>,
  \<^verbatim>\<open>glucose.*?([1-3]\d)\<close>,
  \<^verbatim>\<open>(unconscious|passing out|fainted).*?(diabetes|sugar)\<close>;
  \<^verbatim>\<open>fruity.*(breath|smell)\<close>,
  \<^verbatim>\<open>(vomiting|nausea).*(diabetes|sugar)\<close>,
  \<^verbatim>\<open>(rapid|fast) breathing.*(diabetes|sugar)\<close>,
  \<^verbatim>\<open>(diabetic ketoacidosis|dka)\<close>;
  \<^verbatim>\<open>chest pain.*(diabetes|diabetic)\<close>,
  \<^verbatim>\<open>heart attack.*(diabetes|sugar)\<close>,
  \<^verbatim>\<open>difficulty breathing.*(diabetes|diabetic)\<close>;
  \<^verbatim>\<open>(confused|disoriented|delirious).*(diabetes|sugar)\<close>,
  \<^verbatim>\<open>can\'?t (think|focus).*?(diabetes|sugar)\<close>.
  \<open>alts\<close> is an alternation of literal words (at least one), \<open>any\<close> is \<open>.*\<close>.
\<close>

definition emergency_patterns :: "(string \<times> regex list) list" where
  "emergency_patterns =
    [(''severe_hyperglycemia'',
        [Seq (Lit ''blood sugar '') (Seq (alts [''over'', ''above'', ''more than'']) (Seq (Lit '' '') digits3)),
         Seq (Lit ''glucose'') (Seq any digits3),
         Seq digits3 (Seq any (alts [''blood sugar'', ''glucose'']))]),
     (''severe_hypoglycemia'',
        [Seq (Lit ''blood sugar '') (Seq (alts [''under'', ''below'', ''less than'']) (Seq (Lit '' '') (alts [''40'', ''30'', ''20'']))),
         Seq (Lit ''glucose'') (Seq any (Seq (CharRange CHR ''1'' CHR ''3'') Digit)),
         Seq (alts [''unconscious'', ''passing out'', ''fainted'']) (Seq any (alts [''diabetes'', ''sugar'']))]),
     (''dka_symptoms'',
        [Seq (Lit ''fruity'') (Seq any (alts [''breath'', ''smell''])),
         Seq (alts [''vomiting'', ''nausea'']) (Seq any (alts [''diabetes'', ''sugar''])),
         Seq (alts [''rapid'', ''fast'']) (Seq (Lit '' breathing'') (Seq any (alts [''diabetes'', ''sugar'']))),
         alts [''diabetic ketoacidosis'', ''dka'']]),
     (''cardiac'',
        [Seq (Lit ''chest pain'') (Seq any (alts [''diabetes'', ''diabetic''])),
         Seq (Lit ''heart attack'') (Seq any (alts [''diabetes'', ''sugar''])),
         Seq (Lit ''difficulty breathing'') (Seq any (alts [''diabetes'', ''diabetic'']))]),
     (''severe_confusion'',
        [Seq (alts [''confused'', ''disoriented'', ''delirious'']) (Seq any (alts [''diabetes'', ''sugar''])),
         Seq (Lit ''can'') (Seq (opt (Lit [CHR 0x27])) (Seq (Lit ''t '')
           (Seq (alts [''think'', ''focus'']) (Seq any (alts [''diabetes'', ''sugar''])))))])]"

definition explanations :: "(string \<times> string) list" where
  "explanations =
    [(''severe_hyperglycemia'', ''- Blood sugar over 400 mg/dL can lead to diabetic ketoacidosis (DKA), a life-threatening condition''),
     (''severe_hypoglycemia'', ''- Blood sugar under 40 mg/dL can cause seizures, loss of consciousness, or death''),
     (''dka_symptoms'', ''- Diabetic ketoacidosis is a medical emergency requiring immediate hospitalization''),
     (''cardiac'', ''- Diabetes increases heart attack risk; chest pain requires immediate evaluation''),
     (''severe_confusion'', ''- Severe confusion with diabetes may indicate dangerous blood sugar levels'')]"

definition format_emergency_reasons :: "string list \<Rightarrow> string" where
  "format_emergency_reasons ets =
     join nl (map (\<lambda>et. case map_of explanations et of Some e \<Rightarrow> e | None \<Rightarrow> ''- '' @ et) ets)"

text \<open>The rotating-light symbol U+1F6A8 of the heading, in UTF-8.\<close>

definition siren :: string where
  "siren = [CHR 0xF0, CHR 0x9F, CHR 0x9A, CHR 0xA8]"

text \<open>The f-string of \<open>detect_emergency\<close>, with the formatted reasons in its one hole.\<close>

definition emergency_template :: "string \<Rightarrow> string" where
  "emergency_template reasons = join nl
    [siren @ '' **MEDICAL EMERGENCY DETECTED** '' @ siren,
     [],
     ''Based on your message, you may be experiencing a medical emergency related to diabetes.'',
     [],
     ''**IMMEDIATE ACTIONS REQUIRED:**'',
     ''1. **CALL 911** or your local emergency number immediately'',
     ''2. If you have a glucagon kit (for low blood sugar), use it now'',
     ''3. Do NOT drive yourself - wait for emergency services'',
     ''4. Stay with someone if possible'',
     ''5. Have your medications and medical information ready'',
     [],
     ''**Why this is urgent:**'',
     reasons,
     [],
     ''**This is an AI assistant. This is NOT a substitute for professional medical care.**'',
     ''**Please seek immediate medical attention.**'',
     [],
     ''National Diabetes Emergency Hotline: 1-800-DIABETES (1-800-342-2383)'',
     []]"

text \<open>The inner loop: the patterns of one category in turn, left at the first match.\<close>

fun matches_any :: "regex list \<Rightarrow> string \<Rightarrow> bool" where
  "matches_any [] q = False"
| "matches_any (p # ps) q = (if search p q then True else matches_any ps q)"

text \<open>The outer loop over the categories, appending to \<open>detected_emergencies\<close>.\<close>

fun detect_loop :: "(string \<times> regex list) list \<Rightarrow> string \<Rightarrow> string list \<Rightarrow> string list" where
  "detect_loop [] q detected = detected"
| "detect_loop ((emergency_type, patterns) # rest) q detected =
     detect_loop rest q (if matches_any patterns q then detected @ [emergency_type] else detected)"

definition detect_emergency :: "string \<Rightarrow> emergency_result" where
  "detect_emergency query =
     (let query_lower = lower query;
          detected_emergencies = detect_loop emergency_patterns query_lower []
      in if detected_emergencies \<noteq> []
         then \<lparr>is_emergency = True,
               emergency_types = detected_emergencies,
               emergency_response = Some (emergency_template (format_emergency_reasons detected_emergencies))\<rparr>
         else \<lparr>is_emergency = False, emergency_types = [], emergency_response = None\<rparr>)"

text \<open>
  What the claims about the detector speak of: the number a run of digits
  writes, the phrasings of a glucose value that the three patterns of
  \<open>severe_hyperglycemia\<close> support, and whether a category has a matching pattern.
\<close>

definition decimal_value :: "string \<Rightarrow> nat" where
  "decimal_value ds = foldl (\<lambda>a c. 10 * a + (of_char c - 48)) 0 ds"

definition hyperglycemia_phrasings :: "string \<Rightarrow> string set" where
  "hyperglycemia_phrasings ds =
     {''blood sugar '' @ kw @ '' '' @ ds | kw. kw \<in> {''over'', ''above'', ''more than''}}
     \<union> {''glucose'' @ mid @ ds | mid. CHR 0x0A \<notin> set mid}
     \<union> {ds @ mid @ w | mid w. CHR 0x0A \<notin> set mid \<and> w \<in> {''blood sugar'', ''glucose''}}"

definition category_matches :: "string \<Rightarrow> string \<Rightarrow> bool" where
  "category_matches q t =
     (case map_of emergency_patterns t of
        None \<Rightarrow> False
      | Some ps \<Rightarrow> list_ex (\<lambda>p. search p q) ps)"

section \<open>Exceptions, floats and the world outside\<close>

text \<open>
  An exception (an instance of \<open>Exception\<close>, as the libraries and the checks of
  the source raise them; an interrupt of the interpreter is not one) is its
  class name and the text \<open>str(e)\<close> gives. A function that can raise returns
  \<open>py_error + 'a\<close>, with \<open>Inl\<close> the exception on its way out; a \<open>try\<close> with
  \<open>except Exception\<close> is a case distinction on that sum.
\<close>

datatype py_error = PyError (err_class: string) (err_msg: string)

text \<open>
  A Python float: a real number (every double is one), the two infinities, or
  not-a-number. Only comparisons are taken from it; they are exact.
\<close>

datatype pyfloat = Finite real | PosInf | NegInf | NaN

fun float_gt :: "pyfloat \<Rightarrow> pyfloat \<Rightarrow> bool" where
  "float_gt (Finite x) (Finite y) = (y < x)"
| "float_gt PosInf (Finite y) = True"
| "float_gt PosInf NegInf = True"
| "float_gt (Finite x) NegInf = True"
| "float_gt _ _ = False"

definition float_lt :: "pyfloat \<Rightarrow> pyfloat \<Rightarrow> bool" where
  "float_lt x y = float_gt y x"

text \<open>
  The strings \<open>float(s)\<close> accepts, without regard to case and with the blanks
  of C (space, tab, newline, vertical tab, form feed, return; not the
  separators 0x1C to 0x1F that \<open>str.strip\<close> removes) taken off both ends: a sign,
  then \<open>inf\<close>, \<open>infinity\<close>, \<open>nan\<close> or a decimal number (digits, single underscores
  between digits, a point, an exponent).
\<close>

definition is_c_space :: "char \<Rightarrow> bool" where
  "is_c_space c = (let n = (of_char c :: nat) in (9 \<le> n \<and> n \<le> 13) \<or> n = 32)"

definition c_strip :: "string \<Rightarrow> string" where
  "c_strip s = rev (dropWhile is_c_space (rev (dropWhile is_c_space s)))"

definition digitpart :: regex where
  "digitpart = Seq Digit (Star (Seq (opt (Lit ''_'')) Digit))"

definition float_literal :: regex where
  "float_literal =
     Seq (opt (Alt (Lit ''+'') (Lit ''-'')))
       (Alt (alts [''infinity'', ''inf'', ''nan''])
            (Seq (Alt (Seq digitpart (opt (Seq (Lit ''.'') (opt digitpart))))
                      (Seq (Lit ''.'') digitpart))
                 (opt (Seq (Lit ''e'') (Seq (opt (Alt (Lit ''+'') (Lit ''-''))) digitpart)))))"

definition is_float_literal :: "string \<Rightarrow> bool" where
  "is_float_literal s = ([] \<in> set (after float_literal (lower (c_strip s))))"

text \<open>The external calls a tool of \<open>src/api/tools.py\<close> makes, in the order made.\<close>

datatype ext_call =
    TavilySearch nat string
  | BedrockRetrieve string string string

text \<open>One result of the web search tool; \<open>None\<close> is a key the dictionary lacks.\<close>

record web_result =
  w_content :: "string option"
  w_url :: "string option"
  w_title :: "string option"
  w_score :: "pyfloat option"

text \<open>One entry of \<open>retrievalResults\<close> of the knowledge base.\<close>

record kb_result =
  kb_score :: "pyfloat option"
  kb_text :: "string option"
  kb_uri :: "string option"

text \<open>
  What the tools read from outside: the process environment, the configured
  key, and the answers of the services. The value \<open>float\<close> gives a literal and
  the text \<open>{x:.2f}\<close> gives a float belong to the interpreter and are taken as
  they come. \<open>retrieve\<close> answers \<open>None\<close> where the response has no
  \<open>retrievalResults\<close>.
\<close>

record tools_env =
  environ :: "string \<rightharpoonup> string"
  TAVILY_API_KEY :: string
  float_value :: "string \<Rightarrow> pyfloat"
  format_2f :: "pyfloat \<Rightarrow> string"
  tavily_invoke :: "nat \<Rightarrow> string \<Rightarrow> py_error + web_result list"
  retrieve :: "string \<Rightarrow> string \<Rightarrow> string \<Rightarrow> py_error + kb_result list option"
  ragas_import :: "py_error option"
  single_turn_ascore :: "string \<Rightarrow> string \<Rightarrow> string list \<Rightarrow> string \<Rightarrow> py_error + pyfloat"

text \<open>\<open>os.environ.get(key, default)\<close>\<close>

definition environ_get :: "tools_env \<Rightarrow> string \<Rightarrow> string \<Rightarrow> string" where
  "environ_get env key dflt = (case environ env key of None \<Rightarrow> dflt | Some v \<Rightarrow> v)"

text \<open>
  \<open>repr(s)\<close> of an ASCII string: between double quotes when the string holds a
  single quote and no double quote, between single quotes otherwise; the
  backslash, the quote in use and the control characters are escaped.
\<close>

definition hex2 :: "nat \<Rightarrow> string" where
  "hex2 n = [''0123456789abcdef'' ! (n div 16), ''0123456789abcdef'' ! (n mod 16)]"

definition repr_char :: "char \<Rightarrow> char \<Rightarrow> string" where
  "repr_char quote c =
     (let n = (of_char c :: nat) in
      if c = CHR 0x5C then [CHR 0x5C, CHR 0x5C]
      else if c = quote then [CHR 0x5C, quote]
      else if n = 9 then [CHR 0x5C, CHR ''t'']
      else if n = 10 then [CHR 0x5C, CHR ''n'']
      else if n = 13 then [CHR 0x5C, CHR ''r'']
      else if n < 32 \<or> n = 127 then [CHR 0x5C, CHR ''x''] @ hex2 n
      else [c])"

definition py_repr :: "string \<Rightarrow> string" where
  "py_repr s =
     (let quote = (if CHR 0x27 \<in> set s \<and> CHR 0x22 \<notin> set s then CHR 0x22 else CHR 0x27)
      in [quote] @ concat (map (repr_char quote) s) @ [quote])"

definition py_float :: "tools_env \<Rightarrow> string \<Rightarrow> py_error + pyfloat" where
  "py_float env s =
     (if is_float_literal s then Inr (float_value env s)
      else Inl (PyError ''ValueError'' (''could not convert string to float: '' @ py_repr s)))"

text \<open>\<open>str(n)\<close> for the running number of a source.\<close>

fun str_nat :: "nat \<Rightarrow> string" where
  "str_nat n = (if n < 10 then [char_of (48 + n)] else str_nat (n div 10) @ [char_of (48 + n mod 10)])"

text \<open>\<open>enumerate(xs, i)\<close>\<close>

fun enumerate_from :: "nat \<Rightarrow> 'a list \<Rightarrow> (nat \<times> 'a) list" where
  "enumerate_from i [] = []"
| "enumerate_from i (x # xs) = (i, x) # enumerate_from (Suc i) xs"

definition get_or :: "'a option \<Rightarrow> 'a \<Rightarrow> 'a" where
  "get_or v dflt = (case v of None \<Rightarrow> dflt | Some x \<Rightarrow> x)"

section \<open>The relevance scorer\<close>

text \<open>
  \<open>find_sub needle s\<close> finds the first place of \<open>needle\<close> in \<open>s\<close> and gives the
  text before it and the text behind it.
\<close>

fun find_sub :: "string \<Rightarrow> string \<Rightarrow> (string \<times> string) option" where
  "find_sub needle [] = (if needle = [] then Some ([], []) else None)"
| "find_sub needle (c # cs) =
     (if prefix needle (c # cs) then Some ([], drop (length needle) (c # cs))
      else map_option (\<lambda>(a, b). (c # a, b)) (find_sub needle cs))"

text \<open>
  \<open>re.findall(r"Score:.*?\nContent:\s*(.*?)(?=Score:|\Z)", results, re.DOTALL)\<close>.
  A match starts at the first \<open>Score:\<close>; the lazy \<open>.*?\<close> stops at the first
  \<open>\nContent:\<close> behind it (with DOTALL it may cross lines); \<open>\s*\<close> takes the white
  space that follows; the group then runs to the next \<open>Score:\<close> or to the end of
  the text, so no choice is ever revised. The search goes on where the match
  ended. The list holds the text of the group of each match.
\<close>

function findall_chunks :: "string \<Rightarrow> string list" where
  "findall_chunks s =
     (case find_sub ''Score:'' s of
        None \<Rightarrow> []
      | Some (before, r1) \<Rightarrow>
          (case find_sub (nl @ ''Content:'') r1 of
             None \<Rightarrow> []
           | Some (skipped, r2) \<Rightarrow>
               (case find_sub ''Score:'' (dropWhile is_space r2) of
                  None \<Rightarrow> [dropWhile is_space r2]
                | Some (chunk, r3) \<Rightarrow> chunk # findall_chunks (''Score:'' @ r3))))"
  by pat_completeness auto

record relevance_result =
  error :: "string option"
  chunk_relevance_score :: string
  chunk_relevance_value :: pyfloat

text \<open>
  The body of the \<open>try\<close> of \<open>check_chunks_relevance\<close>: the imports, the two
  checks of the arguments (the arguments are strings, so \<open>not results\<close> asks
  whether the string is empty), the extraction, and the call of the scoring
  model with the identifiers read from the environment. What is only printed
  is left out.
\<close>

definition relevance_try :: "tools_env \<Rightarrow> string \<Rightarrow> string \<Rightarrow> py_error + pyfloat" where
  "relevance_try env results question =
     (case ragas_import env of
        Some e \<Rightarrow> Inl e
      | None \<Rightarrow>
          if results = [] then
            Inl (PyError ''ValueError''
                  (''Invalid input: '' @ [CHR 0x27] @ ''results'' @ [CHR 0x27] @ '' must be a non-empty string.''))
          else if question = [] then
            Inl (PyError ''ValueError''
                  (''Invalid input: '' @ [CHR 0x27] @ ''question'' @ [CHR 0x27] @ '' must be a non-empty string.''))
          else
            (let docs = map strip (findall_chunks results) in
             if docs = [] then
               Inl (PyError ''ValueError''
                     (''No valid content chunks found in '' @ [CHR 0x27] @ ''results'' @ [CHR 0x27] @ ''.''))
             else
               single_turn_ascore env
                 (environ_get env ''BEDROCK_EVAL_MODEL_ID'' ''us.anthropic.claude-3-7-sonnet-20250219-v1:0'')
                 (environ_get env ''AWS_REGION'' ''us-east-1'')
                 docs question))"

text \<open>The function: the result of the \<open>try\<close>, or the answer of \<open>except Exception\<close>.\<close>

definition check_chunks_relevance :: "tools_env \<Rightarrow> string \<Rightarrow> string \<Rightarrow> relevance_result" where
  "check_chunks_relevance env results question =
     (case relevance_try env results question of
        Inr score \<Rightarrow>
          \<lparr>error = None,
           chunk_relevance_score = (if float_gt score (Finite (1/2)) then ''yes'' else ''no''),
           chunk_relevance_value = score\<rparr>
      | Inl e \<Rightarrow>
          \<lparr>error = Some (err_msg e),
           chunk_relevance_score = ''yes'',
           chunk_relevance_value = Finite (1/2)\<rparr>)"

section \<open>The web fallback search\<close>

text \<open>One block of the formatted output, for the result numbered \<open>idx\<close>.\<close>

definition format_web_result :: "tools_env \<Rightarrow> nat \<times> web_result \<Rightarrow> string" where
  "format_web_result env ir =
     (case ir of (idx, result) \<Rightarrow>
        (let content = get_or (w_content result) [];
             url = get_or (w_url result) ''Unknown URL'';
             title = get_or (w_title result) ''Unknown Title'';
             score = get_or (w_score result) (Finite (1/2))
         in ''**Source '' @ str_nat idx @ ''** (relevance: '' @ format_2f env score @ '')'' @ nl
            @ ''**Title:** '' @ title @ nl
            @ content @ nl @ nl
            @ ''*Reference: '' @ url @ ''*'' @ nl @ nl))"

definition format_web_results :: "tools_env \<Rightarrow> web_result list \<Rightarrow> string list" where
  "format_web_results env search_results = map (format_web_result env) (enumerate_from 1 search_results)"

text \<open>
  \<open>medical_web_search\<close> gives its text and the external calls it has made.
  The search tool is built with \<open>k=3\<close> and asked once; every result it hands
  back is formatted.
\<close>

definition medical_web_search :: "tools_env \<Rightarrow> string \<Rightarrow> string \<times> ext_call list" where
  "medical_web_search env query =
     (if length (TAVILY_API_KEY env) = 0 then
        (''Medical web search functionality is not available because there is no API Key.'', [])
      else
        (case tavily_invoke env 3 query of
           Inl e \<Rightarrow> (''Error performing medical web search: '' @ err_msg e, [TavilySearch 3 query])
         | Inr search_results \<Rightarrow>
             (strip (''**Web Search Results:**'' @ nl @ nl @ concat (format_web_results env search_results)),
              [TavilySearch 3 query])))"

section \<open>The knowledge retriever\<close>

definition format_kb_result :: "tools_env \<Rightarrow> nat \<times> kb_result \<Rightarrow> string" where
  "format_kb_result env ir =
     (case ir of (idx, result) \<Rightarrow>
        ''**Source '' @ str_nat idx @ ''** (relevance: '' @ format_2f env (get_or (kb_score result) (Finite 0)) @ '')'' @ nl
        @ get_or (kb_text result) [] @ nl @ nl
        @ ''*Reference: '' @ get_or (kb_uri result) ''Unknown source'' @ ''*'' @ nl @ nl)"

text \<open>
  \<open>query_diabetes_knowledge\<close> gives its text, or the exception that leaves it,
  and the external calls it has made. The three settings are read, and the
  minimum score converted, before the identifier is looked at and outside the
  \<open>try\<close>.
\<close>

definition query_diabetes_knowledge :: "tools_env \<Rightarrow> string \<Rightarrow> (py_error + string) \<times> ext_call list" where
  "query_diabetes_knowledge env question =
     (let knowledge_base_id = environ_get env ''DIABETES_KB_ID'' [];
          aws_region = environ_get env ''AWS_REGION'' ''us-east-1''
      in case py_float env (environ_get env ''DIABETES_KB_MIN_SCORE'' ''0.5'') of
           Inl e \<Rightarrow> (Inl e, [])
         | Inr min_score \<Rightarrow>
             if knowledge_base_id = [] then
               (Inr ''Diabetes knowledge base is not configured. Please contact your administrator.'', [])
             else
               (Inr (case retrieve env knowledge_base_id aws_region question of
                       Inl e \<Rightarrow> ''Error accessing diabetes knowledge base: '' @ err_msg e
                     | Inr None \<Rightarrow>
                         ''No relevant diabetes information found for your question. Please try rephrasing or ask a different question.''
                     | Inr (Some retrievalResults) \<Rightarrow>
                         if length retrievalResults = 0 then
                           ''No relevant diabetes information found for your question. Please try rephrasing or ask a different question.''
                         else
                           (let results_text =
                                  ''Based on medical knowledge sources:'' @ nl @ nl
                                  @ concat (map (format_kb_result env)
                                      (filter (\<lambda>(idx, result). \<not> float_lt (get_or (kb_score result) (Finite 0)) min_score)
                                        (enumerate_from 1 retrievalResults)))
                            in if results_text = ''Based on medical knowledge sources:'' @ nl @ nl then
                                 ''No sufficiently relevant diabetes information found. Please try rephrasing your question.''
                               else strip results_text)),
                [BedrockRetrieve knowledge_base_id aws_region question]))"

section \<open>The medication safety checker\<close>

record safety_result =
  safety_warnings :: "string list"
  has_concerns :: bool

record med_info =
  contraindications :: "string list"
  interactions :: "string list"
  warnings :: string

definition interaction_db :: "(string \<times> med_info) list" where
  "interaction_db =
    [(''metformin'',
        \<lparr>contraindications = [''kidney disease'', ''renal failure'', ''dialysis'', ''contrast dye'', ''iodine''],
         interactions = [''alcohol'', ''excessive alcohol'', ''diuretic''],
         warnings = ''Metformin should be stopped before surgery or contrast imaging procedures.''\<rparr>),
     (''insulin'',
        \<lparr>contraindications = [''hypoglycemia'', ''low blood sugar''],
         interactions = [''beta blocker'', ''propranolol'', ''ace inhibitor''],
         warnings = ''Insulin dosing must be carefully managed to avoid severe hypoglycemia.''\<rparr>),
     (''glipizide'',
        \<lparr>contraindications = [''sulfa allergy''],
         interactions = [''warfarin'', ''coumadin'', ''nsaid'', ''ibuprofen''],
         warnings = ''Sulfonylureas like glipizide can cause hypoglycemia, especially with missed meals.''\<rparr>),
     (''glyburide'',
        \<lparr>contraindications = [''liver disease'', ''sulfa allergy''],
         interactions = [''warfarin'', ''coumadin'', ''nsaid''],
         warnings = ''Glyburide has higher hypoglycemia risk than other sulfonylureas.''\<rparr>),
     (''sitagliptin'',
        \<lparr>contraindications = [''pancreatitis'', ''kidney disease''],
         interactions = [''digoxin''],
         warnings = ''DPP-4 inhibitors rarely may increase pancreatitis risk.''\<rparr>)]"

text \<open>The warning sign U+26A0 and the information sign U+2139, each with U+FE0F, in UTF-8.\<close>

definition warning_sign :: string where
  "warning_sign = [CHR 0xE2, CHR 0x9A, CHR 0xA0, CHR 0xEF, CHR 0xB8, CHR 0x8F]"

definition info_sign :: string where
  "info_sign = [CHR 0xE2, CHR 0x84, CHR 0xB9, CHR 0xEF, CHR 0xB8, CHR 0x8F]"

definition warning_keywords :: "string list" where
  "warning_keywords = [''side effect'', ''problem'', ''issue'', ''concern'']"

text \<open>
  What one entry of the table adds for one medication: \<open>a in b\<close> on strings is
  \<open>sublist a b\<close>.
\<close>

definition known_med_warnings :: "string \<Rightarrow> string \<Rightarrow> string \<times> med_info \<Rightarrow> string list" where
  "known_med_warnings medication query_lower entry =
     (case entry of (known_med, info) \<Rightarrow>
        if sublist known_med (lower medication) then
          map (\<lambda>contraindication.
                 warning_sign @ '' **WARNING**: '' @ medication @ '' may not be safe with '' @ contraindication @ ''. ''
                 @ ''Please consult your doctor before making any changes to your medications.'')
              (filter (\<lambda>contraindication. sublist contraindication query_lower) (contraindications info))
          @ map (\<lambda>interaction.
                 warning_sign @ '' **INTERACTION ALERT**: '' @ medication @ '' may interact with '' @ interaction @ ''. ''
                 @ ''Discuss this with your pharmacist or doctor.'')
              (filter (\<lambda>interaction. sublist interaction query_lower) (interactions info))
          @ (if list_ex (\<lambda>kw. sublist kw query_lower) warning_keywords
             then [info_sign @ '' **Note**: '' @ warnings info] else [])
        else [])"

definition check_medication_safety :: "string list \<Rightarrow> string \<Rightarrow> safety_result" where
  "check_medication_safety medications query =
     (if medications = [] then \<lparr>safety_warnings = [], has_concerns = False\<rparr>
      else
        (let query_lower = lower query;
             safety_warnings =
               concat (map (\<lambda>medication. concat (map (known_med_warnings medication query_lower) interaction_db))
                         medications)
         in \<lparr>safety_warnings = safety_warnings, has_concerns = (length safety_warnings > 0)\<rparr>))"

section \<open>The incremental scraper\<close>






















section \<open>A world to run the tools in\<close>

text \<open>
  Nothing is configured and no service answers anything: the environment is
  empty, the search gives no result, the knowledge base none either, and the
  scoring model the value 0.5. The examples below change what they need.
\<close>

definition bare_env :: tools_env where
  "bare_env =
     \<lparr>environ = Map.empty,
      TAVILY_API_KEY = [],
      float_value = (\<lambda>s. Finite (1/2)),
      format_2f = (\<lambda>x. ''0.50''),
      tavily_invoke = (\<lambda>k query. Inr []),
      retrieve = (\<lambda>knowledge_base_id aws_region question. Inr None),
      ragas_import = None,
      single_turn_ascore = (\<lambda>model region docs question. Inr (Finite (1/2)))\<rparr>"

definition web_page :: "string \<Rightarrow> string \<Rightarrow> string \<Rightarrow> web_result" where
  "web_page title content url =
     \<lparr>w_content = Some content, w_url = Some url, w_title = Some title, w_score = Some (Finite (1/2))\<rparr>"




section \<open>Properties\<close>

subsection \<open>The extraction of chunks\<close>

lemma find_sub_Some: "find_sub n s = Some (a, b) \<Longrightarrow> s = a @ n @ b"
proof (induction s arbitrary: a)
  case Nil
  then show ?case by (simp split: if_splits)
next
  case (Cons c cs)
  show ?case
  proof (cases "prefix n (c # cs)")
    case True
    with Cons.prems have "a = []" "b = drop (length n) (c # cs)" by auto
    moreover from True obtain z where "c # cs = n @ z" unfolding prefix_def by blast
    ultimately show ?thesis by simp
  next
    case False
    with Cons.prems obtain a' where "find_sub n cs = Some (a', b)" "a = c # a'"
      by (auto split: prod.splits)
    with Cons.IH show ?thesis by simp
  qed
qed

lemma length_dropWhile_le: "length (dropWhile P xs) \<le> length xs"
  by (induction xs) auto

termination findall_chunks
proof (relation "measure length", goal_cases)
  case 1
  show ?case by simp
next
  case (2 s x2 before r1 y skipped r2 z chunk r3)
  then have a: "s = before @ ''Score:'' @ r1" and b: "r1 = skipped @ (nl @ ''Content:'') @ r2"
    and c: "dropWhile is_space r2 = chunk @ ''Score:'' @ r3"
    by (auto dest: find_sub_Some)
  from c have "length (''Score:'' @ r3) \<le> length (dropWhile is_space r2)" by simp
  also have "\<dots> \<le> length r2" by (rule length_dropWhile_le)
  also have "\<dots> < length s" unfolding a b by (simp add: nl_def)
  finally show ?case by simp
qed

lemma find_sub_None: "find_sub n s = None \<Longrightarrow> s \<noteq> a @ n @ b"
proof (induction s arbitrary: a)
  case Nil
  then show ?case by (auto split: if_splits)
next
  case (Cons c cs)
  from Cons.prems have np: "\<not> prefix n (c # cs)" and rest: "find_sub n cs = None"
    by (auto split: if_splits)
  show ?case
  proof
    assume eq: "c # cs = a @ n @ b"
    show False
    proof (cases a)
      case Nil
      with eq have "prefix n (c # cs)" by (simp add: prefix_def)
      with np show False ..
    next
      case (Cons d a')
      with eq have "cs = a' @ n @ b" by simp
      with Cons.IH [OF rest] show False by blast
    qed
  qed
qed

lemma find_sub_first:
  "find_sub n s = Some (a, b) \<Longrightarrow> s = a' @ n @ b' \<Longrightarrow> length a \<le> length a'"
proof (induction s arbitrary: a a')
  case Nil
  then show ?case by (auto split: if_splits)
next
  case (Cons c cs)
  show ?case
  proof (cases "prefix n (c # cs)")
    case True
    with Cons.prems(1) show ?thesis by simp
  next
    case False
    with Cons.prems(1) obtain a0 where a0: "find_sub n cs = Some (a0, b)" "a = c # a0"
      by (auto split: prod.splits)
    from False Cons.prems(2) obtain d a1 where a1: "a' = d # a1"
      by (cases a') (auto simp: prefix_def)
    with Cons.prems(2) have "cs = a1 @ n @ b'" by simp
    from Cons.IH [OF a0(1) this] a0(2) a1 show ?thesis by simp
  qed
qed

lemma findall_chunks_Nil_iff:
  "findall_chunks s = [] \<longleftrightarrow> \<not> (\<exists>a b c. s = a @ ''Score:'' @ b @ (nl @ ''Content:'') @ c)"
proof
  assume empty: "findall_chunks s = []"
  show "\<not> (\<exists>a b c. s = a @ ''Score:'' @ b @ (nl @ ''Content:'') @ c)"
  proof
    assume "\<exists>a b c. s = a @ ''Score:'' @ b @ (nl @ ''Content:'') @ c"
    then obtain a b c where s: "s = a @ ''Score:'' @ b @ (nl @ ''Content:'') @ c" by blast
    then obtain a0 r1 where f1: "find_sub ''Score:'' s = Some (a0, r1)"
      using find_sub_None [of "''Score:''" s a "b @ (nl @ ''Content:'') @ c"]
      by (cases "find_sub ''Score:'' s") auto
    from find_sub_Some [OF f1] have s0: "s = a0 @ ''Score:'' @ r1" .
    from find_sub_first [OF f1 s] have le: "length a0 \<le> length a" .
    have "suffix (b @ (nl @ ''Content:'') @ c) s" unfolding s suffix_def by simp
    moreover have "suffix r1 s" unfolding suffix_def using s0 by simp
    moreover have "length (b @ (nl @ ''Content:'') @ c) \<le> length r1"
    proof -
      from s have "length s = length a + 6 + length (b @ (nl @ ''Content:'') @ c)" by simp
      moreover from s0 have "length s = length a0 + 6 + length r1" by simp
      ultimately show ?thesis using le by linarith
    qed
    ultimately have "suffix (b @ (nl @ ''Content:'') @ c) r1" by (rule suffix_length_suffix)
    then obtain x where "r1 = x @ b @ (nl @ ''Content:'') @ c" unfolding suffix_def by blast
    then have "r1 = (x @ b) @ (nl @ ''Content:'') @ c" by simp
    then obtain k r2 where f2: "find_sub (nl @ ''Content:'') r1 = Some (k, r2)"
      using find_sub_None [of "nl @ ''Content:''" r1 "x @ b" c]
      by (cases "find_sub (nl @ ''Content:'') r1") auto
    have "findall_chunks s \<noteq> []"
      by (subst findall_chunks.simps) (simp add: f1 f2 split: option.split)
    with empty show False by simp
  qed
next
  assume none: "\<not> (\<exists>a b c. s = a @ ''Score:'' @ b @ (nl @ ''Content:'') @ c)"
  show "findall_chunks s = []"
  proof (cases "find_sub ''Score:'' s")
    case None
    then show ?thesis by (subst findall_chunks.simps) simp
  next
    case (Some p)
    obtain a0 r1 where p: "p = (a0, r1)" by (cases p)
    with Some have f1: "find_sub ''Score:'' s = Some (a0, r1)" by simp
    show ?thesis
    proof (cases "find_sub (nl @ ''Content:'') r1")
      case None
      with f1 show ?thesis by (subst findall_chunks.simps) simp
    next
      case (Some q)
      obtain k r2 where "q = (k, r2)" by (cases q)
      with Some have "r1 = k @ (nl @ ''Content:'') @ r2" by (auto dest: find_sub_Some)
      with find_sub_Some [OF f1] have "s = a0 @ ''Score:'' @ k @ (nl @ ''Content:'') @ r2" by simp
      with none show ?thesis by blast
    qed
  qed
qed

subsection \<open>What the matcher computes\<close>

lemma one_char_iff: "t \<in> set (one_char P s) \<longleftrightarrow> (\<exists>c. P c \<and> s = c # t)"
  by (cases s) (auto simp: one_char_def)

lemma star_iter_sound:
  assumes f: "\<And>s t. t \<in> set (f s) \<Longrightarrow> \<exists>v\<in>A. s = v @ t"
  shows "t \<in> set (star_iter f n s) \<Longrightarrow> \<exists>v\<in>star A. s = v @ t"
proof (induction n arbitrary: s)
  case 0
  then have "s = [] @ t" by simp
  then show ?case using star_Nil by blast
next
  case (Suc n)
  from Suc.prems consider "t = s" | m where "m \<in> set (f s)" "t \<in> set (star_iter f n m)"
    by auto
  then show ?case
  proof cases
    case 1
    then have "s = [] @ t" by simp
    then show ?thesis using star_Nil by blast
  next
    case 2
    from f [OF 2(1)] obtain u where u: "u \<in> A" "s = u @ m" by blast
    from Suc.IH [OF 2(2)] obtain v where v: "v \<in> star A" "m = v @ t" by blast
    from u v have "u @ v \<in> star A" "s = (u @ v) @ t" by (auto intro: star_step)
    then show ?thesis by blast
  qed
qed

lemma star_iter_complete:
  assumes f: "\<And>v t. v \<in> A \<Longrightarrow> t \<in> set (f (v @ t))"
  shows "v \<in> star A \<Longrightarrow> length (v @ t) \<le> n \<Longrightarrow> t \<in> set (star_iter f n (v @ t))"
proof (induction arbitrary: n rule: star.induct)
  case star_Nil
  then show ?case by (cases n) auto
next
  case (star_step u v)
  show ?case
  proof (cases "u = []")
    case True
    with star_step show ?thesis by simp
  next
    case False
    with star_step.prems obtain m where n: "n = Suc m" by (cases n) auto
    from star_step.prems n False have len: "length (v @ t) \<le> m" by (cases u) auto
    have mem: "v @ t \<in> set (f (u @ v @ t))" using f [OF star_step.hyps(1)] .
    have short: "length (v @ t) < length (u @ v @ t)" using False by (cases u) auto
    have "t \<in> set (star_iter f m (v @ t))" using star_step.IH [OF len] .
    with mem short have "t \<in> set (star_iter f (Suc m) (u @ v @ t))"
      unfolding star_iter.simps set_simps set_concat set_map set_filter by blast
    then show ?thesis unfolding n by simp
  qed
qed


lemma after_Lit: "t \<in> set (after (Lit w) s) \<longleftrightarrow> s = w @ t"
proof
  assume "t \<in> set (after (Lit w) s)"
  then have p: "prefix w s" and t: "t = drop (length w) s" by (simp_all split: if_splits)
  from p obtain z where "s = w @ z" unfolding prefix_def by blast
  with t show "s = w @ t" by simp
next
  assume "s = w @ t"
  then show "t \<in> set (after (Lit w) s)" by simp
qed

lemma after_Seq: "t \<in> set (after (Seq r1 r2) s) \<longleftrightarrow> (\<exists>m. m \<in> set (after r1 s) \<and> t \<in> set (after r2 m))"
  by (simp add: Bex_def)


lemma lang_Seq_iff: "(\<exists>w\<in>lang (Seq r1 r2). s = w @ t) \<longleftrightarrow> (\<exists>u\<in>lang r1. \<exists>v\<in>lang r2. s = u @ v @ t)"
proof
  assume "\<exists>w\<in>lang (Seq r1 r2). s = w @ t"
  then obtain w where "w \<in> lang (Seq r1 r2)" "s = w @ t" by blast
  then obtain u v where "u \<in> lang r1" "v \<in> lang r2" "s = (u @ v) @ t" by auto
  then show "\<exists>u\<in>lang r1. \<exists>v\<in>lang r2. s = u @ v @ t" by auto
next
  assume "\<exists>u\<in>lang r1. \<exists>v\<in>lang r2. s = u @ v @ t"
  then obtain u v where uv: "u \<in> lang r1" "v \<in> lang r2" "s = u @ v @ t" by blast
  then have "u @ v \<in> lang (Seq r1 r2)" "s = (u @ v) @ t" by auto
  then show "\<exists>w\<in>lang (Seq r1 r2). s = w @ t" by blast
qed


lemma lang_one: "(\<exists>v\<in>{[c] | c. P c}. s = v @ t) \<longleftrightarrow> (\<exists>c. P c \<and> s = c # t)"
  by auto

lemma after_lang: "t \<in> set (after r s) \<longleftrightarrow> (\<exists>v\<in>lang r. s = v @ t)"
proof (induction r arbitrary: s t)
  case (Lit w)
  show ?case unfolding after_Lit by simp
next
  case Dot
  show ?case unfolding after.simps lang.simps lang_one one_char_iff ..
next
  case Digit
  show ?case unfolding after.simps lang.simps lang_one one_char_iff ..
next
  case (CharRange a b)
  show ?case unfolding after.simps lang.simps lang_one one_char_iff ..
next
  case (Seq r1 r2)
  show ?case unfolding after_Seq lang_Seq_iff Seq.IH by blast
next
  case (Alt r1 r2)
  have "t \<in> set (after (Alt r1 r2) s) \<longleftrightarrow> t \<in> set (after r1 s) \<or> t \<in> set (after r2 s)"
    by simp
  then show ?case unfolding Alt.IH lang.simps by blast
next
  case (Star r)
  have sound: "\<And>s t. t \<in> set (after r s) \<Longrightarrow> \<exists>v\<in>lang r. s = v @ t"
    using Star.IH by blast
  have complete: "\<And>v t. v \<in> lang r \<Longrightarrow> t \<in> set (after r (v @ t))"
    using Star.IH by blast
  show ?case
  proof
    assume "t \<in> set (after (Star r) s)"
    then have "t \<in> set (star_iter (after r) (length s) s)" by simp
    then have "\<exists>v\<in>star (lang r). s = v @ t"
      using sound by (rule star_iter_sound [rotated])
    then show "\<exists>v\<in>lang (Star r). s = v @ t" by simp
  next
    assume "\<exists>v\<in>lang (Star r). s = v @ t"
    then obtain v where v: "v \<in> star (lang r)" "s = v @ t" by auto
    have "t \<in> set (star_iter (after r) (length (v @ t)) (v @ t))"
      by (rule star_iter_complete [OF complete v(1) order_refl])
    with v show "t \<in> set (after (Star r) s)" by simp
  qed
qed

lemma nonempty_iff: "xs \<noteq> [] \<longleftrightarrow> (\<exists>t. t \<in> set xs)"
  by (cases xs) auto

lemma search_iff: "search r s \<longleftrightarrow> (\<exists>u v w. s = u @ v @ w \<and> v \<in> lang r)"
proof (induction s)
  case Nil
  show ?case unfolding search.simps nonempty_iff after_lang by auto
next
  case (Cons c cs)
  have a: "after r (c # cs) \<noteq> [] \<longleftrightarrow> (\<exists>v w. c # cs = v @ w \<and> v \<in> lang r)"
    unfolding nonempty_iff after_lang by blast
  show ?case
  proof
    assume "search r (c # cs)"
    then consider "after r (c # cs) \<noteq> []" | "search r cs" by auto
    then show "\<exists>u v w. c # cs = u @ v @ w \<and> v \<in> lang r"
    proof cases
      case 1
      with a obtain v w where "c # cs = [] @ v @ w" "v \<in> lang r" by auto
      then show ?thesis by blast
    next
      case 2
      with Cons.IH obtain u v w where "cs = u @ v @ w" "v \<in> lang r" by blast
      then have "c # cs = (c # u) @ v @ w" "v \<in> lang r" by auto
      then show ?thesis by blast
    qed
  next
    assume "\<exists>u v w. c # cs = u @ v @ w \<and> v \<in> lang r"
    then obtain u v w where uvw: "c # cs = u @ v @ w" "v \<in> lang r" by blast
    show "search r (c # cs)"
    proof (cases u)
      case Nil
      with uvw have "\<exists>v w. c # cs = v @ w \<and> v \<in> lang r" by auto
      with a show ?thesis by simp
    next
      case (Cons d u')
      with uvw have "cs = u' @ v @ w" by simp
      with uvw(2) have "search r cs" unfolding Cons.IH by blast
      then show ?thesis by simp
    qed
  qed
qed

subsection \<open>The emergency detector\<close>

lemma matches_any_iff: "matches_any ps q \<longleftrightarrow> list_ex (\<lambda>p. search p q) ps"
  by (induction ps) auto

lemma detect_loop_filter:
  "detect_loop cats q acc = acc @ map fst (filter (\<lambda>(t, ps). matches_any ps q) cats)"
  by (induction cats q acc rule: detect_loop.induct) auto

lemma decimal_value_snoc: "decimal_value (ds @ [c]) = 10 * decimal_value ds + (of_char c - 48)"
  by (simp add: decimal_value_def)

lemma decimal_value_bound: "list_all is_digit ds \<Longrightarrow> decimal_value ds < 10 ^ length ds"
proof (induction ds rule: rev_induct)
  case Nil
  show ?case by (simp add: decimal_value_def)
next
  case (snoc c ds)
  then have "decimal_value ds < 10 ^ length ds" and "(of_char c :: nat) - 48 \<le> 9"
    by (auto simp: is_digit_def Let_def)
  then show ?case unfolding decimal_value_snoc by simp
qed

lemma above_400_three_digits:
  assumes "list_all is_digit ds" "400 < decimal_value ds"
  shows "3 \<le> length ds"
proof (rule ccontr)
  assume "\<not> 3 \<le> length ds"
  then have "length ds \<le> 2" by simp
  then have "(10::nat) ^ length ds \<le> 10 ^ 2" by (rule power_increasing) simp
  with decimal_value_bound [OF assms(1)] assms(2) show False by simp
qed

lemma star_all: "(\<forall>c\<in>set ds. [c] \<in> A) \<Longrightarrow> ds \<in> star A"
proof (induction ds)
  case Nil
  show ?case by (rule star_Nil)
next
  case (Cons c ds)
  then have "[c] \<in> A" "ds \<in> star A" by auto
  then have "[c] @ ds \<in> star A" by (rule star_step)
  then show ?case by simp
qed

lemma lang_any: "CHR 0x0A \<notin> set m \<Longrightarrow> m \<in> lang any"
  unfolding any_def lang.simps by (rule star_all) auto

lemma lang_at_least:
  "list_all P ds \<Longrightarrow> n \<le> length ds \<Longrightarrow> (\<And>c. P c \<Longrightarrow> [c] \<in> lang r) \<Longrightarrow> ds \<in> lang (at_least n r)"
proof (induction n arbitrary: ds)
  case 0
  then show ?case by (auto intro!: star_all simp: list_all_iff)
next
  case (Suc n)
  then obtain c cs where ds: "ds = c # cs" by (cases ds) auto
  with Suc have "[c] \<in> lang r" "cs \<in> lang (at_least n r)" by auto
  then have "[c] @ cs \<in> lang (at_least (Suc n) r)" unfolding at_least.simps lang.simps by blast
  with ds show ?case by simp
qed

lemma lang_digits3: "list_all is_digit ds \<Longrightarrow> 3 \<le> length ds \<Longrightarrow> ds \<in> lang digits3"
  unfolding digits3_def by (rule lang_at_least [where P = is_digit]) auto

lemma lang_SeqI: "u \<in> lang r1 \<Longrightarrow> v \<in> lang r2 \<Longrightarrow> u @ v \<in> lang (Seq r1 r2)"
  by auto

lemma lang_alts3: "w \<in> {a, b, c} \<Longrightarrow> w \<in> lang (alts [a, b, c])"
  by (auto simp: alts_def)

lemma lang_alts2: "w \<in> {a, b} \<Longrightarrow> w \<in> lang (alts [a, b])"
  by (auto simp: alts_def)

lemma keys_emergency_patterns:
  "map fst emergency_patterns =
     [''severe_hyperglycemia'', ''severe_hypoglycemia'', ''dka_symptoms'', ''cardiac'', ''severe_confusion'']"
  by (simp add: emergency_patterns_def)

lemma filter_by_key:
  "distinct (map fst cats) \<Longrightarrow>
   map fst (filter (\<lambda>(t, ps). P ps) cats) =
   filter (\<lambda>t. case map_of cats t of None \<Rightarrow> False | Some ps \<Rightarrow> P ps) (map fst cats)"
proof (induction cats)
  case Nil
  show ?case by simp
next
  case (Cons a cats)
  obtain t ps where a: "a = (t, ps)" by (cases a)
  from Cons.prems a have fresh: "t \<notin> fst ` set cats" and d: "distinct (map fst cats)" by auto
  have "filter (\<lambda>k. case map_of (a # cats) k of None \<Rightarrow> False | Some ps \<Rightarrow> P ps) (map fst cats)
      = filter (\<lambda>k. case map_of cats k of None \<Rightarrow> False | Some ps \<Rightarrow> P ps) (map fst cats)"
    using fresh a by (intro filter_cong) auto
  with Cons.IH [OF d] a show ?case by simp
qed

lemma detected_types:
  "detect_loop emergency_patterns q [] =
     filter (category_matches q) (map fst emergency_patterns)"
proof -
  have d: "distinct (map fst emergency_patterns)" unfolding keys_emergency_patterns by simp
  have "detect_loop emergency_patterns q [] =
          map fst (filter (\<lambda>(t, ps). list_ex (\<lambda>p. search p q) ps) emergency_patterns)"
    unfolding detect_loop_filter matches_any_iff by simp
  also have "\<dots> = filter (\<lambda>t. case map_of emergency_patterns t of None \<Rightarrow> False
                                 | Some ps \<Rightarrow> list_ex (\<lambda>p. search p q) ps) (map fst emergency_patterns)"
    using d by (rule filter_by_key)
  also have "\<dots> = filter (category_matches q) (map fst emergency_patterns)"
    unfolding category_matches_def ..
  finally show ?thesis .
qed

lemma hyperglycemia_patterns:
  "map_of emergency_patterns ''severe_hyperglycemia'' =
     Some [Seq (Lit ''blood sugar '') (Seq (alts [''over'', ''above'', ''more than'']) (Seq (Lit '' '') digits3)),
           Seq (Lit ''glucose'') (Seq any digits3),
           Seq digits3 (Seq any (alts [''blood sugar'', ''glucose'']))]"
  by (simp add: emergency_patterns_def)

lemma phrasing_matches:
  assumes ds: "ds \<in> lang digits3" and ph: "phrase \<in> hyperglycemia_phrasings ds"
  shows "phrase \<in> lang (Seq (Lit ''blood sugar '') (Seq (alts [''over'', ''above'', ''more than'']) (Seq (Lit '' '') digits3)))
       \<or> phrase \<in> lang (Seq (Lit ''glucose'') (Seq any digits3))
       \<or> phrase \<in> lang (Seq digits3 (Seq any (alts [''blood sugar'', ''glucose''])))"
proof -
  from ph consider
      kw where "phrase = ''blood sugar '' @ kw @ '' '' @ ds" "kw \<in> {''over'', ''above'', ''more than''}"
    | mid where "phrase = ''glucose'' @ mid @ ds" "CHR 0x0A \<notin> set mid"
    | mid w where "phrase = ds @ mid @ w" "CHR 0x0A \<notin> set mid" "w \<in> {''blood sugar'', ''glucose''}"
    unfolding hyperglycemia_phrasings_def by blast
  then show ?thesis
  proof cases
    case 1
    have "'' '' @ ds \<in> lang (Seq (Lit '' '') digits3)" by (rule lang_SeqI) (simp, rule ds)
    with lang_alts3 [OF 1(2)]
    have "kw @ '' '' @ ds \<in> lang (Seq (alts [''over'', ''above'', ''more than'']) (Seq (Lit '' '') digits3))"
      by (rule lang_SeqI)
    then have "''blood sugar '' @ kw @ '' '' @ ds \<in>
        lang (Seq (Lit ''blood sugar '') (Seq (alts [''over'', ''above'', ''more than'']) (Seq (Lit '' '') digits3)))"
      by (rule lang_SeqI [rotated]) simp
    with 1(1) show ?thesis by simp
  next
    case 2
    have "mid @ ds \<in> lang (Seq any digits3)" using lang_any [OF 2(2)] ds by (rule lang_SeqI)
    then have "''glucose'' @ mid @ ds \<in> lang (Seq (Lit ''glucose'') (Seq any digits3))"
      by (rule lang_SeqI [rotated]) simp
    with 2(1) show ?thesis by simp
  next
    case 3
    have "mid @ w \<in> lang (Seq any (alts [''blood sugar'', ''glucose'']))"
      using lang_any [OF 3(2)] lang_alts2 [OF 3(3)] by (rule lang_SeqI)
    with ds have "ds @ mid @ w \<in> lang (Seq digits3 (Seq any (alts [''blood sugar'', ''glucose''])))"
      by (rule lang_SeqI)
    with 3(1) show ?thesis by simp
  qed
qed

text \<open>
  C3. A query whose lower-case form holds a glucose value above 400 in one of the
  phrasings the three patterns support (\<open>blood sugar over|above|more than N\<close>,
  \<open>glucose ... N\<close>, \<open>N ... blood sugar|glucose\<close>, on one line) is an emergency,
  and \<open>severe_hyperglycemia\<close> is among the types returned.
\<close>

theorem detect_emergency_glucose_above_400:
  assumes digits: "list_all is_digit ds"
    and above: "400 < decimal_value ds"
    and phrasing: "phrase \<in> hyperglycemia_phrasings ds"
    and query: "lower query = pre @ phrase @ post"
  shows "is_emergency (detect_emergency query)
       \<and> ''severe_hyperglycemia'' \<in> set (emergency_types (detect_emergency query))"
proof -
  have "ds \<in> lang digits3"
    using digits above_400_three_digits [OF digits above] by (rule lang_digits3)
  from phrasing_matches [OF this phrasing] query
  have "category_matches (lower query) ''severe_hyperglycemia''"
    unfolding category_matches_def hyperglycemia_patterns option.case list_ex_iff search_iff
    by (simp only: list.set Bex_def insert_iff empty_iff) blast
  then have "''severe_hyperglycemia'' \<in> set (detect_loop emergency_patterns (lower query) [])"
    unfolding detected_types keys_emergency_patterns by simp
  then show ?thesis
    by (auto simp: detect_emergency_def Let_def)
qed

theorem detect_emergency_glucose_above_400_witness:
  "list_all is_digit ''450'' \<and> 400 < decimal_value ''450''
   \<and> ''blood sugar over 450'' \<in> hyperglycemia_phrasings ''450''
   \<and> lower ''My Blood Sugar OVER 450 today'' = ''my '' @ ''blood sugar over 450'' @ '' today''
   \<and> is_emergency (detect_emergency ''My Blood Sugar OVER 450 today'')
   \<and> ''severe_hyperglycemia'' \<in> set (emergency_types (detect_emergency ''My Blood Sugar OVER 450 today''))"
proof -
  have h1: "list_all is_digit ''450''" by code_simp
  have h2: "400 < decimal_value ''450''" by code_simp
  have "''blood sugar over 450'' = ''blood sugar '' @ ''over'' @ '' '' @ ''450''" by simp
  then have h3: "''blood sugar over 450'' \<in> hyperglycemia_phrasings ''450''"
    unfolding hyperglycemia_phrasings_def by blast
  have h4: "lower ''My Blood Sugar OVER 450 today'' = ''my '' @ ''blood sugar over 450'' @ '' today''"
    by code_simp
  from detect_emergency_glucose_above_400 [OF h1 h2 h3 h4] h1 h2 h3 h4 show ?thesis by blast
qed

text \<open>
  C4. The patterns ask for three or more digits, not for a value above 400: the
  query \<open>blood sugar over 150\<close> states a value of at most 400 and is reported as
  an emergency of type \<open>severe_hyperglycemia\<close>.
\<close>

theorem detect_emergency_matches_low_three_digit_value:
  "list_all is_digit ''150'' \<and> decimal_value ''150'' \<le> 400
   \<and> is_emergency (detect_emergency ''blood sugar over 150'')
   \<and> ''severe_hyperglycemia'' \<in> set (emergency_types (detect_emergency ''blood sugar over 150''))"
  by code_simp

text \<open>
  C5. When no pattern of any category matches the lower-case query, the result
  is \<open>is_emergency = False\<close>, no types and no response.
\<close>

theorem detect_emergency_no_match:
  assumes "\<forall>(t, ps) \<in> set emergency_patterns. \<forall>p \<in> set ps. \<not> search p (lower query)"
  shows "detect_emergency query =
           \<lparr>is_emergency = False, emergency_types = [], emergency_response = None\<rparr>"
proof -
  have "filter (\<lambda>(t, ps). matches_any ps (lower query)) emergency_patterns = []"
    using assms unfolding filter_empty_conv matches_any_iff list_ex_iff by blast
  then have "detect_loop emergency_patterns (lower query) [] = []"
    unfolding detect_loop_filter by simp
  then show ?thesis by (simp add: detect_emergency_def)
qed

theorem detect_emergency_no_match_witness:
  "\<not> list_ex (\<lambda>(t, ps). list_ex (\<lambda>p. search p (lower ''What is a healthy diet for Diabetes?'')) ps)
        emergency_patterns
   \<and> detect_emergency ''What is a healthy diet for Diabetes?'' =
           \<lparr>is_emergency = False, emergency_types = [], emergency_response = None\<rparr>"
proof -
  have h: "\<not> list_ex (\<lambda>(t, ps). list_ex (\<lambda>p. search p (lower ''What is a healthy diet for Diabetes?'')) ps)
        emergency_patterns"
    by code_simp
  then have "\<forall>(t, ps) \<in> set emergency_patterns. \<forall>p \<in> set ps.
       \<not> search p (lower ''What is a healthy diet for Diabetes?'')"
    unfolding list_ex_iff by blast
  from detect_emergency_no_match [OF this] h show ?thesis by blast
qed

lemma explanation_text:
  "list_all (\<lambda>t. (case map_of explanations t of Some e \<Rightarrow> e | None \<Rightarrow> ''- '' @ t) =
            (\<lambda>t. if t = ''severe_hyperglycemia''
                   then ''- Blood sugar over 400 mg/dL can lead to diabetic ketoacidosis (DKA), a life-threatening condition''
                 else if t = ''severe_hypoglycemia''
                   then ''- Blood sugar under 40 mg/dL can cause seizures, loss of consciousness, or death''
                 else if t = ''dka_symptoms''
                   then ''- Diabetic ketoacidosis is a medical emergency requiring immediate hospitalization''
                 else if t = ''cardiac''
                   then ''- Diabetes increases heart attack risk; chest pain requires immediate evaluation''
                 else ''- Severe confusion with diabetes may indicate dangerous blood sugar levels'') t)
     [''severe_hyperglycemia'', ''severe_hypoglycemia'', ''dka_symptoms'', ''cardiac'', ''severe_confusion'']"
  by (simp add: explanations_def)

lemma map_filter_cong:
  "list_all (\<lambda>t. f t = g t) xs \<Longrightarrow> map f (filter P xs) = map g (filter P xs)"
  by (induction xs) auto

lemma join_then_sep: "ts \<noteq> [] \<Longrightarrow> join sep (map f ts) @ sep = concat (map (\<lambda>t. f t @ sep) ts)"
proof (induction ts rule: list_nonempty_induct)
  case (single t)
  show ?case by simp
next
  case (cons t ts)
  then obtain u us where "ts = u # us" by (cases ts) auto
  with cons.IH show ?case by simp
qed

lemma template_text:
  "emergency_template reasons =
     [CHR 0xF0, CHR 0x9F, CHR 0x9A, CHR 0xA8] @ '' **MEDICAL EMERGENCY DETECTED** '' @ [CHR 0xF0, CHR 0x9F, CHR 0x9A, CHR 0xA8] @ [CHR 0x0A, CHR 0x0A]
           @ ''Based on your message, you may be experiencing a medical emergency related to diabetes.'' @ [CHR 0x0A, CHR 0x0A]
           @ ''**IMMEDIATE ACTIONS REQUIRED:**'' @ [CHR 0x0A]
           @ ''1. **CALL 911** or your local emergency number immediately'' @ [CHR 0x0A]
           @ ''2. If you have a glucagon kit (for low blood sugar), use it now'' @ [CHR 0x0A]
           @ ''3. Do NOT drive yourself - wait for emergency services'' @ [CHR 0x0A]
           @ ''4. Stay with someone if possible'' @ [CHR 0x0A]
           @ ''5. Have your medications and medical information ready'' @ [CHR 0x0A, CHR 0x0A]
           @ ''**Why this is urgent:**'' @ [CHR 0x0A]
     @ reasons
     @ [CHR 0x0A]
     @ [CHR 0x0A]
           @ ''**This is an AI assistant. This is NOT a substitute for professional medical care.**'' @ [CHR 0x0A]
           @ ''**Please seek immediate medical attention.**'' @ [CHR 0x0A, CHR 0x0A]
           @ ''National Diabetes Emergency Hotline: 1-800-DIABETES (1-800-342-2383)'' @ [CHR 0x0A]"
  by (simp add: emergency_template_def nl_def siren_def)

text \<open>
  C6. The types returned are exactly the categories with a matching pattern,
  each once and in the order hyperglycemia, hypoglycemia, DKA, cardiac,
  confusion; and when there is one, the response is the fixed text below with
  the explanations of the returned types, one per line, between
  \<open>Why this is urgent\<close> and the closing lines.
\<close>

theorem detect_emergency_all_categories:
  "emergency_types (detect_emergency query) =
      filter (category_matches (lower query))
        [''severe_hyperglycemia'', ''severe_hypoglycemia'', ''dka_symptoms'', ''cardiac'', ''severe_confusion'']
   \<and> distinct (emergency_types (detect_emergency query))
   \<and> is_emergency (detect_emergency query) = (emergency_types (detect_emergency query) \<noteq> [])
   \<and> (emergency_types (detect_emergency query) = [] \<longrightarrow> emergency_response (detect_emergency query) = None)
   \<and> (emergency_types (detect_emergency query) \<noteq> [] \<longrightarrow>
        emergency_response (detect_emergency query) = Some
          ([CHR 0xF0, CHR 0x9F, CHR 0x9A, CHR 0xA8] @ '' **MEDICAL EMERGENCY DETECTED** '' @ [CHR 0xF0, CHR 0x9F, CHR 0x9A, CHR 0xA8] @ [CHR 0x0A, CHR 0x0A]
           @ ''Based on your message, you may be experiencing a medical emergency related to diabetes.'' @ [CHR 0x0A, CHR 0x0A]
           @ ''**IMMEDIATE ACTIONS REQUIRED:**'' @ [CHR 0x0A]
           @ ''1. **CALL 911** or your local emergency number immediately'' @ [CHR 0x0A]
           @ ''2. If you have a glucagon kit (for low blood sugar), use it now'' @ [CHR 0x0A]
           @ ''3. Do NOT drive yourself - wait for emergency services'' @ [CHR 0x0A]
           @ ''4. Stay with someone if possible'' @ [CHR 0x0A]
           @ ''5. Have your medications and medical information ready'' @ [CHR 0x0A, CHR 0x0A]
           @ ''**Why this is urgent:**'' @ [CHR 0x0A]
           @ concat (map (\<lambda>t.
            (\<lambda>t. if t = ''severe_hyperglycemia''
                   then ''- Blood sugar over 400 mg/dL can lead to diabetic ketoacidosis (DKA), a life-threatening condition''
                 else if t = ''severe_hypoglycemia''
                   then ''- Blood sugar under 40 mg/dL can cause seizures, loss of consciousness, or death''
                 else if t = ''dka_symptoms''
                   then ''- Diabetic ketoacidosis is a medical emergency requiring immediate hospitalization''
                 else if t = ''cardiac''
                   then ''- Diabetes increases heart attack risk; chest pain requires immediate evaluation''
                 else ''- Severe confusion with diabetes may indicate dangerous blood sugar levels'') t @ [CHR 0x0A])
               (emergency_types (detect_emergency query)))
           @ [CHR 0x0A]
           @ ''**This is an AI assistant. This is NOT a substitute for professional medical care.**'' @ [CHR 0x0A]
           @ ''**Please seek immediate medical attention.**'' @ [CHR 0x0A, CHR 0x0A]
           @ ''National Diabetes Emergency Hotline: 1-800-DIABETES (1-800-342-2383)'' @ [CHR 0x0A]))"
proof -
  let ?order = "[''severe_hyperglycemia'', ''severe_hypoglycemia'', ''dka_symptoms'', ''cardiac'', ''severe_confusion'']"
  let ?d = "detect_loop emergency_patterns (lower query) []"
  let ?explain = "
            (\<lambda>t. if t = ''severe_hyperglycemia''
                   then ''- Blood sugar over 400 mg/dL can lead to diabetic ketoacidosis (DKA), a life-threatening condition''
                 else if t = ''severe_hypoglycemia''
                   then ''- Blood sugar under 40 mg/dL can cause seizures, loss of consciousness, or death''
                 else if t = ''dka_symptoms''
                   then ''- Diabetic ketoacidosis is a medical emergency requiring immediate hospitalization''
                 else if t = ''cardiac''
                   then ''- Diabetes increases heart attack risk; chest pain requires immediate evaluation''
                 else ''- Severe confusion with diabetes may indicate dangerous blood sugar levels'')"
  have d: "?d = filter (category_matches (lower query)) ?order"
    unfolding detected_types keys_emergency_patterns ..
  have types: "emergency_types (detect_emergency query) = ?d"
    by (simp add: detect_emergency_def Let_def)
  have "distinct ?order" by simp
  then have dist: "distinct ?d" unfolding d by (rule distinct_filter)
  have flag: "is_emergency (detect_emergency query) = (?d \<noteq> [])"
    by (simp add: detect_emergency_def Let_def)
  have none: "?d = [] \<longrightarrow> emergency_response (detect_emergency query) = None"
    by (simp add: detect_emergency_def Let_def)
  have "map (\<lambda>et. case map_of explanations et of Some e \<Rightarrow> e | None \<Rightarrow> ''- '' @ et) ?d = map ?explain ?d"
    unfolding d using explanation_text by (rule map_filter_cong)
  then have reasons: "format_emergency_reasons ?d = join [CHR 0x0A] (map ?explain ?d)"
    unfolding format_emergency_reasons_def nl_def by (rule arg_cong)
  have some: "?d \<noteq> [] \<longrightarrow>
        emergency_response (detect_emergency query) = Some
          ([CHR 0xF0, CHR 0x9F, CHR 0x9A, CHR 0xA8] @ '' **MEDICAL EMERGENCY DETECTED** '' @ [CHR 0xF0, CHR 0x9F, CHR 0x9A, CHR 0xA8] @ [CHR 0x0A, CHR 0x0A]
           @ ''Based on your message, you may be experiencing a medical emergency related to diabetes.'' @ [CHR 0x0A, CHR 0x0A]
           @ ''**IMMEDIATE ACTIONS REQUIRED:**'' @ [CHR 0x0A]
           @ ''1. **CALL 911** or your local emergency number immediately'' @ [CHR 0x0A]
           @ ''2. If you have a glucagon kit (for low blood sugar), use it now'' @ [CHR 0x0A]
           @ ''3. Do NOT drive yourself - wait for emergency services'' @ [CHR 0x0A]
           @ ''4. Stay with someone if possible'' @ [CHR 0x0A]
           @ ''5. Have your medications and medical information ready'' @ [CHR 0x0A, CHR 0x0A]
           @ ''**Why this is urgent:**'' @ [CHR 0x0A]
           @ concat (map (\<lambda>t. ?explain t @ [CHR 0x0A]) ?d)
           @ [CHR 0x0A]
           @ ''**This is an AI assistant. This is NOT a substitute for professional medical care.**'' @ [CHR 0x0A]
           @ ''**Please seek immediate medical attention.**'' @ [CHR 0x0A, CHR 0x0A]
           @ ''National Diabetes Emergency Hotline: 1-800-DIABETES (1-800-342-2383)'' @ [CHR 0x0A])"
  proof
    assume ne: "?d \<noteq> []"
    then have "emergency_response (detect_emergency query)
        = Some (emergency_template (join [CHR 0x0A] (map ?explain ?d)))"
      using reasons by (simp add: detect_emergency_def Let_def)
    also have "emergency_template (join [CHR 0x0A] (map ?explain ?d)) =
          [CHR 0xF0, CHR 0x9F, CHR 0x9A, CHR 0xA8] @ '' **MEDICAL EMERGENCY DETECTED** '' @ [CHR 0xF0, CHR 0x9F, CHR 0x9A, CHR 0xA8] @ [CHR 0x0A, CHR 0x0A]
           @ ''Based on your message, you may be experiencing a medical emergency related to diabetes.'' @ [CHR 0x0A, CHR 0x0A]
           @ ''**IMMEDIATE ACTIONS REQUIRED:**'' @ [CHR 0x0A]
           @ ''1. **CALL 911** or your local emergency number immediately'' @ [CHR 0x0A]
           @ ''2. If you have a glucagon kit (for low blood sugar), use it now'' @ [CHR 0x0A]
           @ ''3. Do NOT drive yourself - wait for emergency services'' @ [CHR 0x0A]
           @ ''4. Stay with someone if possible'' @ [CHR 0x0A]
           @ ''5. Have your medications and medical information ready'' @ [CHR 0x0A, CHR 0x0A]
           @ ''**Why this is urgent:**'' @ [CHR 0x0A]
           @ (join [CHR 0x0A] (map ?explain ?d) @ [CHR 0x0A])
           @ [CHR 0x0A]
           @ ''**This is an AI assistant. This is NOT a substitute for professional medical care.**'' @ [CHR 0x0A]
           @ ''**Please seek immediate medical attention.**'' @ [CHR 0x0A, CHR 0x0A]
           @ ''National Diabetes Emergency Hotline: 1-800-DIABETES (1-800-342-2383)'' @ [CHR 0x0A]"
      unfolding template_text by (simp only: append_assoc)
    also have "join [CHR 0x0A] (map ?explain ?d) @ [CHR 0x0A] = concat (map (\<lambda>t. ?explain t @ [CHR 0x0A]) ?d)"
      using ne by (rule join_then_sep)
    finally show "emergency_response (detect_emergency query) = Some
          ([CHR 0xF0, CHR 0x9F, CHR 0x9A, CHR 0xA8] @ '' **MEDICAL EMERGENCY DETECTED** '' @ [CHR 0xF0, CHR 0x9F, CHR 0x9A, CHR 0xA8] @ [CHR 0x0A, CHR 0x0A]
           @ ''Based on your message, you may be experiencing a medical emergency related to diabetes.'' @ [CHR 0x0A, CHR 0x0A]
           @ ''**IMMEDIATE ACTIONS REQUIRED:**'' @ [CHR 0x0A]
           @ ''1. **CALL 911** or your local emergency number immediately'' @ [CHR 0x0A]
           @ ''2. If you have a glucagon kit (for low blood sugar), use it now'' @ [CHR 0x0A]
           @ ''3. Do NOT drive yourself - wait for emergency services'' @ [CHR 0x0A]
           @ ''4. Stay with someone if possible'' @ [CHR 0x0A]
           @ ''5. Have your medications and medical information ready'' @ [CHR 0x0A, CHR 0x0A]
           @ ''**Why this is urgent:**'' @ [CHR 0x0A]
           @ concat (map (\<lambda>t. ?explain t @ [CHR 0x0A]) ?d)
           @ [CHR 0x0A]
           @ ''**This is an AI assistant. This is NOT a substitute for professional medical care.**'' @ [CHR 0x0A]
           @ ''**Please seek immediate medical attention.**'' @ [CHR 0x0A, CHR 0x0A]
           @ ''National Diabetes Emergency Hotline: 1-800-DIABETES (1-800-342-2383)'' @ [CHR 0x0A])" .
  qed
  from d dist flag none some show ?thesis unfolding types by (intro conjI)
qed

theorem detect_emergency_all_categories_witness:
  "emergency_types (detect_emergency ''Blood sugar over 450 and chest pain, I am diabetic'') =
      [''severe_hyperglycemia'', ''cardiac'']
   \<and> emergency_types (detect_emergency ''Blood sugar over 450 and chest pain, I am diabetic'') \<noteq> []
   \<and> emergency_response (detect_emergency ''Blood sugar over 450 and chest pain, I am diabetic'') = Some
          ([CHR 0xF0, CHR 0x9F, CHR 0x9A, CHR 0xA8] @ '' **MEDICAL EMERGENCY DETECTED** '' @ [CHR 0xF0, CHR 0x9F, CHR 0x9A, CHR 0xA8] @ [CHR 0x0A, CHR 0x0A]
           @ ''Based on your message, you may be experiencing a medical emergency related to diabetes.'' @ [CHR 0x0A, CHR 0x0A]
           @ ''**IMMEDIATE ACTIONS REQUIRED:**'' @ [CHR 0x0A]
           @ ''1. **CALL 911** or your local emergency number immediately'' @ [CHR 0x0A]
           @ ''2. If you have a glucagon kit (for low blood sugar), use it now'' @ [CHR 0x0A]
           @ ''3. Do NOT drive yourself - wait for emergency services'' @ [CHR 0x0A]
           @ ''4. Stay with someone if possible'' @ [CHR 0x0A]
           @ ''5. Have your medications and medical information ready'' @ [CHR 0x0A, CHR 0x0A]
           @ ''**Why this is urgent:**'' @ [CHR 0x0A]
           @ ''- Blood sugar over 400 mg/dL can lead to diabetic ketoacidosis (DKA), a life-threatening condition'' @ [CHR 0x0A]
           @ ''- Diabetes increases heart attack risk; chest pain requires immediate evaluation'' @ [CHR 0x0A]
           @ [CHR 0x0A]
           @ ''**This is an AI assistant. This is NOT a substitute for professional medical care.**'' @ [CHR 0x0A]
           @ ''**Please seek immediate medical attention.**'' @ [CHR 0x0A, CHR 0x0A]
           @ ''National Diabetes Emergency Hotline: 1-800-DIABETES (1-800-342-2383)'' @ [CHR 0x0A])"
proof -
  let ?q = "''Blood sugar over 450 and chest pain, I am diabetic''"
  let ?r = "detect_emergency ?q"
  let ?explain = "
            (\<lambda>t. if t = ''severe_hyperglycemia''
                   then ''- Blood sugar over 400 mg/dL can lead to diabetic ketoacidosis (DKA), a life-threatening condition''
                 else if t = ''severe_hypoglycemia''
                   then ''- Blood sugar under 40 mg/dL can cause seizures, loss of consciousness, or death''
                 else if t = ''dka_symptoms''
                   then ''- Diabetic ketoacidosis is a medical emergency requiring immediate hospitalization''
                 else if t = ''cardiac''
                   then ''- Diabetes increases heart attack risk; chest pain requires immediate evaluation''
                 else ''- Severe confusion with diabetes may indicate dangerous blood sugar levels'')"
  have f: "filter (category_matches (lower ?q))
        [''severe_hyperglycemia'', ''severe_hypoglycemia'', ''dka_symptoms'', ''cardiac'', ''severe_confusion'']
      = [''severe_hyperglycemia'', ''cardiac'']"
    by code_simp
  have c: "concat (map (\<lambda>t. ?explain t @ [CHR 0x0A]) [''severe_hyperglycemia'', ''cardiac''])
      = ''- Blood sugar over 400 mg/dL can lead to diabetic ketoacidosis (DKA), a life-threatening condition'' @ [CHR 0x0A]
        @ ''- Diabetes increases heart attack risk; chest pain requires immediate evaluation'' @ [CHR 0x0A]"
    by simp
  note main = detect_emergency_all_categories [of ?q]
  from main have "emergency_types ?r = filter (category_matches (lower ?q))
        [''severe_hyperglycemia'', ''severe_hypoglycemia'', ''dka_symptoms'', ''cardiac'', ''severe_confusion'']"
    by (rule conjunct1)
  then have types: "emergency_types ?r = [''severe_hyperglycemia'', ''cardiac'']"
    by (simp only: f)
  then have ne: "emergency_types ?r \<noteq> []" by (simp only: list.distinct not_False_eq_True)
  from main ne have "emergency_response ?r = Some
          ([CHR 0xF0, CHR 0x9F, CHR 0x9A, CHR 0xA8] @ '' **MEDICAL EMERGENCY DETECTED** '' @ [CHR 0xF0, CHR 0x9F, CHR 0x9A, CHR 0xA8] @ [CHR 0x0A, CHR 0x0A]
           @ ''Based on your message, you may be experiencing a medical emergency related to diabetes.'' @ [CHR 0x0A, CHR 0x0A]
           @ ''**IMMEDIATE ACTIONS REQUIRED:**'' @ [CHR 0x0A]
           @ ''1. **CALL 911** or your local emergency number immediately'' @ [CHR 0x0A]
           @ ''2. If you have a glucagon kit (for low blood sugar), use it now'' @ [CHR 0x0A]
           @ ''3. Do NOT drive yourself - wait for emergency services'' @ [CHR 0x0A]
           @ ''4. Stay with someone if possible'' @ [CHR 0x0A]
           @ ''5. Have your medications and medical information ready'' @ [CHR 0x0A, CHR 0x0A]
           @ ''**Why this is urgent:**'' @ [CHR 0x0A]
           @ concat (map (\<lambda>t. ?explain t @ [CHR 0x0A]) (emergency_types ?r))
           @ [CHR 0x0A]
           @ ''**This is an AI assistant. This is NOT a substitute for professional medical care.**'' @ [CHR 0x0A]
           @ ''**Please seek immediate medical attention.**'' @ [CHR 0x0A, CHR 0x0A]
           @ ''National Diabetes Emergency Hotline: 1-800-DIABETES (1-800-342-2383)'' @ [CHR 0x0A])"
    by blast
  then have "emergency_response ?r = Some
          ([CHR 0xF0, CHR 0x9F, CHR 0x9A, CHR 0xA8] @ '' **MEDICAL EMERGENCY DETECTED** '' @ [CHR 0xF0, CHR 0x9F, CHR 0x9A, CHR 0xA8] @ [CHR 0x0A, CHR 0x0A]
           @ ''Based on your message, you may be experiencing a medical emergency related to diabetes.'' @ [CHR 0x0A, CHR 0x0A]
           @ ''**IMMEDIATE ACTIONS REQUIRED:**'' @ [CHR 0x0A]
           @ ''1. **CALL 911** or your local emergency number immediately'' @ [CHR 0x0A]
           @ ''2. If you have a glucagon kit (for low blood sugar), use it now'' @ [CHR 0x0A]
           @ ''3. Do NOT drive yourself - wait for emergency services'' @ [CHR 0x0A]
           @ ''4. Stay with someone if possible'' @ [CHR 0x0A]
           @ ''5. Have your medications and medical information ready'' @ [CHR 0x0A, CHR 0x0A]
           @ ''**Why this is urgent:**'' @ [CHR 0x0A]
           @ (''- Blood sugar over 400 mg/dL can lead to diabetic ketoacidosis (DKA), a life-threatening condition'' @ [CHR 0x0A]
        @ ''- Diabetes increases heart attack risk; chest pain requires immediate evaluation'' @ [CHR 0x0A])
           @ [CHR 0x0A]
           @ ''**This is an AI assistant. This is NOT a substitute for professional medical care.**'' @ [CHR 0x0A]
           @ ''**Please seek immediate medical attention.**'' @ [CHR 0x0A, CHR 0x0A]
           @ ''National Diabetes Emergency Hotline: 1-800-DIABETES (1-800-342-2383)'' @ [CHR 0x0A])"
    unfolding types c .
  then have "emergency_response ?r = Some
          ([CHR 0xF0, CHR 0x9F, CHR 0x9A, CHR 0xA8] @ '' **MEDICAL EMERGENCY DETECTED** '' @ [CHR 0xF0, CHR 0x9F, CHR 0x9A, CHR 0xA8] @ [CHR 0x0A, CHR 0x0A]
           @ ''Based on your message, you may be experiencing a medical emergency related to diabetes.'' @ [CHR 0x0A, CHR 0x0A]
           @ ''**IMMEDIATE ACTIONS REQUIRED:**'' @ [CHR 0x0A]
           @ ''1. **CALL 911** or your local emergency number immediately'' @ [CHR 0x0A]
           @ ''2. If you have a glucagon kit (for low blood sugar), use it now'' @ [CHR 0x0A]
           @ ''3. Do NOT drive yourself - wait for emergency services'' @ [CHR 0x0A]
           @ ''4. Stay with someone if possible'' @ [CHR 0x0A]
           @ ''5. Have your medications and medical information ready'' @ [CHR 0x0A, CHR 0x0A]
           @ ''**Why this is urgent:**'' @ [CHR 0x0A]
           @ ''- Blood sugar over 400 mg/dL can lead to diabetic ketoacidosis (DKA), a life-threatening condition'' @ [CHR 0x0A]
           @ ''- Diabetes increases heart attack risk; chest pain requires immediate evaluation'' @ [CHR 0x0A]
           @ [CHR 0x0A]
           @ ''**This is an AI assistant. This is NOT a substitute for professional medical care.**'' @ [CHR 0x0A]
           @ ''**Please seek immediate medical attention.**'' @ [CHR 0x0A, CHR 0x0A]
           @ ''National Diabetes Emergency Hotline: 1-800-DIABETES (1-800-342-2383)'' @ [CHR 0x0A])"
    by (simp only: append_assoc)
  with types ne show ?thesis by (intro conjI)
qed

subsection \<open>The relevance scorer and the medication checker\<close>

text \<open>
  C1. When the results hold no \<open>Score:/Content:\<close> block (the extraction finds
  nothing, which by \<open>findall_chunks_Nil_iff\<close> is to say that no \<open>Score:\<close> is followed
  by a \<open>Content:\<close> at the start of a later line), and whenever anything in the
  \<open>try\<close> raises, \<open>check_chunks_relevance\<close> raises nothing: it returns a dictionary
  whose error is the text of the exception raised, with the verdict \<open>yes\<close> and
  the value 0.5. The exception is the one of the failed import, or of the
  failed check of an argument, or, for results without a block, the
  \<open>ValueError\<close> that says no valid content chunks were found.
\<close>

theorem check_chunks_relevance_fails_open:
  assumes "findall_chunks results = [] \<or> relevance_try env results question = Inl e"
  shows "\<exists>raised.
           relevance_try env results question = Inl raised
         \<and> check_chunks_relevance env results question =
             \<lparr>error = Some (err_msg raised), chunk_relevance_score = ''yes'',
              chunk_relevance_value = Finite (1/2)\<rparr>
         \<and> (relevance_try env results question = Inl e \<longrightarrow> raised = e)
         \<and> (\<forall>x. ragas_import env = Some x \<longrightarrow> raised = x)
         \<and> (ragas_import env = None \<and> results = [] \<longrightarrow>
              raised = PyError ''ValueError''
                (''Invalid input: '' @ [CHR 0x27] @ ''results'' @ [CHR 0x27] @ '' must be a non-empty string.''))
         \<and> (ragas_import env = None \<and> results \<noteq> [] \<and> question = [] \<longrightarrow>
              raised = PyError ''ValueError''
                (''Invalid input: '' @ [CHR 0x27] @ ''question'' @ [CHR 0x27] @ '' must be a non-empty string.''))
         \<and> (ragas_import env = None \<and> results \<noteq> [] \<and> question \<noteq> [] \<and> findall_chunks results = [] \<longrightarrow>
              raised = PyError ''ValueError''
                (''No valid content chunks found in '' @ [CHR 0x27] @ ''results'' @ [CHR 0x27] @ ''.''))"
proof -
  have "\<exists>raised. relevance_try env results question = Inl raised"
  proof (cases "findall_chunks results = []")
    case True
    then show ?thesis by (simp add: relevance_try_def split: option.split)
  next
    case False
    with assms show ?thesis by blast
  qed
  then obtain raised where r: "relevance_try env results question = Inl raised" ..
  then have out: "check_chunks_relevance env results question =
           \<lparr>error = Some (err_msg raised), chunk_relevance_score = ''yes'', chunk_relevance_value = Finite (1/2)\<rparr>"
    by (simp add: check_chunks_relevance_def)
  have same: "relevance_try env results question = Inl e \<longrightarrow> raised = e"
    using r by simp
  have imp: "\<forall>x. ragas_import env = Some x \<longrightarrow> raised = x"
  proof (intro allI impI)
    fix x assume "ragas_import env = Some x"
    with r show "raised = x" by (simp add: relevance_try_def)
  qed
  have a: "ragas_import env = None \<and> results = [] \<longrightarrow>
              raised = PyError ''ValueError''
                (''Invalid input: '' @ [CHR 0x27] @ ''results'' @ [CHR 0x27] @ '' must be a non-empty string.'')"
  proof
    assume "ragas_import env = None \<and> results = []"
    then have "relevance_try env results question = Inl (PyError ''ValueError''
                (''Invalid input: '' @ [CHR 0x27] @ ''results'' @ [CHR 0x27] @ '' must be a non-empty string.''))"
      by (simp add: relevance_try_def)
    with r show "raised = PyError ''ValueError''
                (''Invalid input: '' @ [CHR 0x27] @ ''results'' @ [CHR 0x27] @ '' must be a non-empty string.'')"
      by (simp only: sum.inject)
  qed
  have b: "ragas_import env = None \<and> results \<noteq> [] \<and> question = [] \<longrightarrow>
              raised = PyError ''ValueError''
                (''Invalid input: '' @ [CHR 0x27] @ ''question'' @ [CHR 0x27] @ '' must be a non-empty string.'')"
  proof
    assume "ragas_import env = None \<and> results \<noteq> [] \<and> question = []"
    then have "relevance_try env results question = Inl (PyError ''ValueError''
                (''Invalid input: '' @ [CHR 0x27] @ ''question'' @ [CHR 0x27] @ '' must be a non-empty string.''))"
      by (simp add: relevance_try_def)
    with r show "raised = PyError ''ValueError''
                (''Invalid input: '' @ [CHR 0x27] @ ''question'' @ [CHR 0x27] @ '' must be a non-empty string.'')"
      by (simp only: sum.inject)
  qed
  have c: "ragas_import env = None \<and> results \<noteq> [] \<and> question \<noteq> [] \<and> findall_chunks results = [] \<longrightarrow>
              raised = PyError ''ValueError''
                (''No valid content chunks found in '' @ [CHR 0x27] @ ''results'' @ [CHR 0x27] @ ''.'')"
  proof
    assume "ragas_import env = None \<and> results \<noteq> [] \<and> question \<noteq> [] \<and> findall_chunks results = []"
    then have "relevance_try env results question = Inl (PyError ''ValueError''
                (''No valid content chunks found in '' @ [CHR 0x27] @ ''results'' @ [CHR 0x27] @ ''.''))"
      by (simp add: relevance_try_def)
    with r show "raised = PyError ''ValueError''
                (''No valid content chunks found in '' @ [CHR 0x27] @ ''results'' @ [CHR 0x27] @ ''.'')"
      by (simp only: sum.inject)
  qed
  from r out same imp a b c show ?thesis by (intro exI [of _ raised] conjI)
qed

theorem check_chunks_relevance_fails_open_witness:
  "findall_chunks (''**Source 1** (relevance: 0.85)'' @ nl @ ''Insulin lowers blood sugar.'') = []
   \<and> (\<forall>env.
         check_chunks_relevance (env\<lparr>ragas_import := None\<rparr>)
           (''**Source 1** (relevance: 0.85)'' @ nl @ ''Insulin lowers blood sugar.'') ''What does insulin do?'' =
           \<lparr>error = Some (''No valid content chunks found in '' @ [CHR 0x27] @ ''results'' @ [CHR 0x27] @ ''.''),
            chunk_relevance_score = ''yes'', chunk_relevance_value = Finite (1/2)\<rparr>)"
proof -
  let ?results = "''**Source 1** (relevance: 0.85)'' @ nl @ ''Insulin lowers blood sugar.''"
  have h: "findall_chunks ?results = []"
    by code_simp
  have "check_chunks_relevance (env\<lparr>ragas_import := None\<rparr>) ?results ''What does insulin do?'' =
           \<lparr>error = Some (''No valid content chunks found in '' @ [CHR 0x27] @ ''results'' @ [CHR 0x27] @ ''.''),
            chunk_relevance_score = ''yes'', chunk_relevance_value = Finite (1/2)\<rparr>" for env
  proof -
    let ?env = "env\<lparr>ragas_import := None\<rparr>"
    have hyp: "findall_chunks ?results = [] \<or> relevance_try ?env ?results ''What does insulin do?'' = Inl e" for e
      using h by (rule disjI1)
    from check_chunks_relevance_fails_open [OF hyp [of "PyError [] []"]]
    obtain raised where out: "check_chunks_relevance ?env ?results ''What does insulin do?'' =
             \<lparr>error = Some (err_msg raised), chunk_relevance_score = ''yes'',
              chunk_relevance_value = Finite (1/2)\<rparr>"
      and msg: "ragas_import ?env = None \<and> ?results \<noteq> [] \<and> ''What does insulin do?'' \<noteq> []
                   \<and> findall_chunks ?results = [] \<longrightarrow>
              raised = PyError ''ValueError''
                (''No valid content chunks found in '' @ [CHR 0x27] @ ''results'' @ [CHR 0x27] @ ''.'')"
      by (elim exE conjE) (rule that, assumption+)
    have "ragas_import ?env = None \<and> ?results \<noteq> [] \<and> ''What does insulin do?'' \<noteq> []"
      by simp
    with msg h have "raised = PyError ''ValueError''
                (''No valid content chunks found in '' @ [CHR 0x27] @ ''results'' @ [CHR 0x27] @ ''.'')"
      by blast
    with out show ?thesis by simp
  qed
  with h show ?thesis by blast
qed

text \<open>
  C2. When the scoring succeeds, the value returned is the score, and the
  verdict is \<open>yes\<close> exactly when the score is greater than 0.5; a score of 0.5
  gives \<open>no\<close>.
\<close>

theorem check_chunks_relevance_threshold:
  assumes "relevance_try env results question = Inr score"
  shows "error (check_chunks_relevance env results question) = None
       \<and> chunk_relevance_value (check_chunks_relevance env results question) = score
       \<and> (chunk_relevance_score (check_chunks_relevance env results question) = ''yes'')
            = float_gt score (Finite (1/2))
       \<and> (chunk_relevance_score (check_chunks_relevance env results question) = ''no'')
            = (\<not> float_gt score (Finite (1/2)))
       \<and> (score = Finite (1/2) \<longrightarrow>
            chunk_relevance_score (check_chunks_relevance env results question) = ''no'')"
  using assms by (simp add: check_chunks_relevance_def)

theorem check_chunks_relevance_threshold_witness:
  "\<forall>env. relevance_try
           (env\<lparr>ragas_import := None, single_turn_ascore := (\<lambda>model region docs question. Inr (Finite (1/2)))\<rparr>)
           (''Score: 0.91'' @ nl @ ''Content: Insulin lowers blood sugar.'' @ nl) ''What does insulin do?''
         = Inr (Finite (1/2))
       \<and> chunk_relevance_score (check_chunks_relevance
           (env\<lparr>ragas_import := None, single_turn_ascore := (\<lambda>model region docs question. Inr (Finite (1/2)))\<rparr>)
           (''Score: 0.91'' @ nl @ ''Content: Insulin lowers blood sugar.'' @ nl) ''What does insulin do?'') = ''no''
       \<and> chunk_relevance_value (check_chunks_relevance
           (env\<lparr>ragas_import := None, single_turn_ascore := (\<lambda>model region docs question. Inr (Finite (1/2)))\<rparr>)
           (''Score: 0.91'' @ nl @ ''Content: Insulin lowers blood sugar.'' @ nl) ''What does insulin do?'') = Finite (1/2)"
proof
  fix env :: tools_env
  let ?env = "env\<lparr>ragas_import := None, single_turn_ascore := (\<lambda>model region docs question. Inr (Finite (1/2)))\<rparr>"
  let ?results = "''Score: 0.91'' @ nl @ ''Content: Insulin lowers blood sugar.'' @ nl"
  have docs: "map strip (findall_chunks ?results) = [''Insulin lowers blood sugar.'']"
    by code_simp
  have ne: "?results \<noteq> []" by simp
  have h: "relevance_try ?env ?results ''What does insulin do?'' = Inr (Finite (1/2))"
    unfolding relevance_try_def docs using ne by simp
  from check_chunks_relevance_threshold [OF h] h
  show "relevance_try ?env ?results ''What does insulin do?'' = Inr (Finite (1/2))
       \<and> chunk_relevance_score (check_chunks_relevance ?env ?results ''What does insulin do?'') = ''no''
       \<and> chunk_relevance_value (check_chunks_relevance ?env ?results ''What does insulin do?'') = Finite (1/2)"
    by blast
qed

text \<open>
  C7. With no medications, \<open>check_medication_safety\<close> returns no warnings and
  \<open>has_concerns = False\<close>, whatever the query.
\<close>

theorem check_medication_safety_empty:
  "check_medication_safety [] query = \<lparr>safety_warnings = [], has_concerns = False\<rparr>"
  by (simp add: check_medication_safety_def)

subsection \<open>The incremental scraper\<close>












subsection \<open>The web search and the knowledge retriever\<close>

lemma length_enumerate_from: "length (enumerate_from i xs) = length xs"
  by (induction xs arbitrary: i) auto

lemma nth_enumerate_from: "k < length xs \<Longrightarrow> enumerate_from i xs ! k = (i + k, xs ! k)"
proof (induction xs arbitrary: i k)
  case Nil
  then show ?case by simp
next
  case (Cons x xs)
  show ?case
  proof (cases k)
    case 0
    then show ?thesis by simp
  next
    case (Suc j)
    with Cons.prems have "j < length xs" by simp
    from Cons.IH [OF this, of "Suc i"] Suc show ?thesis by simp
  qed
qed

text \<open>
  What \<open>medical_web_search\<close> does with the answer of the tool: one block for
  every result, in order, each with its number, score, title, content and URL
  (the defaults where a result lacks one).
\<close>

lemma medical_web_search_formats_every_result:
  assumes "TAVILY_API_KEY env \<noteq> []" and "tavily_invoke env 3 query = Inr search_results"
  shows "fst (medical_web_search env query)
           = strip (''**Web Search Results:**'' @ nl @ nl @ concat (format_web_results env search_results))
       \<and> length (format_web_results env search_results) = length search_results
       \<and> (\<forall>i < length search_results.
             format_web_results env search_results ! i =
               ''**Source '' @ str_nat (Suc i) @ ''** (relevance: ''
                 @ format_2f env (get_or (w_score (search_results ! i)) (Finite (1/2))) @ '')'' @ nl
               @ ''**Title:** '' @ get_or (w_title (search_results ! i)) ''Unknown Title'' @ nl
               @ get_or (w_content (search_results ! i)) [] @ nl @ nl
               @ ''*Reference: '' @ get_or (w_url (search_results ! i)) ''Unknown URL'' @ ''*'' @ nl @ nl)
       \<and> (length search_results \<le> 3 \<longrightarrow> length (format_web_results env search_results) \<le> 3)"
proof -
  have out: "fst (medical_web_search env query)
           = strip (''**Web Search Results:**'' @ nl @ nl @ concat (format_web_results env search_results))"
    using assms by (simp add: medical_web_search_def)
  have len: "length (format_web_results env search_results) = length search_results"
    by (simp add: format_web_results_def length_enumerate_from)
  have blocks: "\<forall>i < length search_results.
             format_web_results env search_results ! i =
               ''**Source '' @ str_nat (Suc i) @ ''** (relevance: ''
                 @ format_2f env (get_or (w_score (search_results ! i)) (Finite (1/2))) @ '')'' @ nl
               @ ''**Title:** '' @ get_or (w_title (search_results ! i)) ''Unknown Title'' @ nl
               @ get_or (w_content (search_results ! i)) [] @ nl @ nl
               @ ''*Reference: '' @ get_or (w_url (search_results ! i)) ''Unknown URL'' @ ''*'' @ nl @ nl"
  proof (intro allI impI)
    fix i assume i: "i < length search_results"
    then have "format_web_results env search_results ! i = format_web_result env (Suc i, search_results ! i)"
      by (simp add: format_web_results_def length_enumerate_from nth_enumerate_from)
    then show "format_web_results env search_results ! i =
               ''**Source '' @ str_nat (Suc i) @ ''** (relevance: ''
                 @ format_2f env (get_or (w_score (search_results ! i)) (Finite (1/2))) @ '')'' @ nl
               @ ''**Title:** '' @ get_or (w_title (search_results ! i)) ''Unknown Title'' @ nl
               @ get_or (w_content (search_results ! i)) [] @ nl @ nl
               @ ''*Reference: '' @ get_or (w_url (search_results ! i)) ''Unknown URL'' @ ''*'' @ nl @ nl"
      by (simp add: format_web_result_def Let_def del: str_nat.simps)
  qed
  from out len blocks show ?thesis by simp
qed

text \<open>
  C9. The tool is built with \<open>k=3\<close>, and nothing else in \<open>medical_web_search\<close>
  bounds the results: when the tool hands back four of them, the output has
  four sources, not at most three.
\<close>

theorem medical_web_search_four_results:
  "medical_web_search
     (bare_env\<lparr>TAVILY_API_KEY := ''key'',
               tavily_invoke := (\<lambda>k query.
                 Inr [web_page ''Insulin'' ''Keep it cool.'' ''https://a.org/1'',
                      web_page ''Storage'' ''Not in the car.'' ''https://b.org/2'',
                      web_page ''Travel'' ''Carry it on.'' ''https://c.org/3'',
                      web_page ''Pens'' ''Room temperature.'' ''https://d.org/4''])\<rparr>)
     ''insulin storage''
   = (''**Web Search Results:**'' @ nl @ nl
      @ ''**Source 1** (relevance: 0.50)'' @ nl @ ''**Title:** Insulin'' @ nl @ ''Keep it cool.'' @ nl @ nl
      @ ''*Reference: https://a.org/1*'' @ nl @ nl
      @ ''**Source 2** (relevance: 0.50)'' @ nl @ ''**Title:** Storage'' @ nl @ ''Not in the car.'' @ nl @ nl
      @ ''*Reference: https://b.org/2*'' @ nl @ nl
      @ ''**Source 3** (relevance: 0.50)'' @ nl @ ''**Title:** Travel'' @ nl @ ''Carry it on.'' @ nl @ nl
      @ ''*Reference: https://c.org/3*'' @ nl @ nl
      @ ''**Source 4** (relevance: 0.50)'' @ nl @ ''**Title:** Pens'' @ nl @ ''Room temperature.'' @ nl @ nl
      @ ''*Reference: https://d.org/4*'',
      [TavilySearch 3 ''insulin storage''])
   \<and> \<not> length (format_web_results bare_env
           [web_page ''Insulin'' ''Keep it cool.'' ''https://a.org/1'',
            web_page ''Storage'' ''Not in the car.'' ''https://b.org/2'',
            web_page ''Travel'' ''Carry it on.'' ''https://c.org/3'',
            web_page ''Pens'' ''Room temperature.'' ''https://d.org/4'']) \<le> 3"
  by code_simp

lemma medical_web_search_not_configured:
  "TAVILY_API_KEY env = [] \<Longrightarrow>
     medical_web_search env query =
       (''Medical web search functionality is not available because there is no API Key.'', [])"
  by (simp add: medical_web_search_def)

lemma query_diabetes_knowledge_not_configured:
  assumes "environ_get env ''DIABETES_KB_ID'' [] = []"
    and "is_float_literal (environ_get env ''DIABETES_KB_MIN_SCORE'' ''0.5'')"
  shows "query_diabetes_knowledge env question =
           (Inr ''Diabetes knowledge base is not configured. Please contact your administrator.'', [])"
  using assms by (simp add: query_diabetes_knowledge_def py_float_def)

lemma abc_is_no_float: "\<not> is_float_literal ''abc''"
  by code_simp

lemma repr_abc: "py_repr ''abc'' = [CHR 0x27] @ ''abc'' @ [CHR 0x27]"
  by code_simp

text \<open>
  C10. With no knowledge-base identifier set and \<open>DIABETES_KB_MIN_SCORE=abc\<close>,
  \<open>query_diabetes_knowledge\<close> does not reach its guard: the conversion of the
  minimum score raises \<open>ValueError\<close>, before any external call. (With the
  minimum score unset or a float literal, and for \<open>medical_web_search\<close>, the
  fixed message is returned, as the two lemmas above show.)
\<close>

theorem query_diabetes_knowledge_raises_on_bad_min_score:
  "query_diabetes_knowledge (env\<lparr>environ := [''DIABETES_KB_MIN_SCORE'' \<mapsto> ''abc'']\<rparr>) question =
     (Inl (PyError ''ValueError'' (''could not convert string to float: '' @ [CHR 0x27] @ ''abc'' @ [CHR 0x27])), [])"
  by (simp add: query_diabetes_knowledge_def py_float_def environ_get_def abc_is_no_float repr_abc)

end
